theory Spec2Isabelle
  imports Complex_Main "HOL-Library.List_Lexorder" "HOL-Library.Char_ord"
begin

section \<open>JavaScript values used by the package\<close>

text \<open>
  Indices, tags, ledger versions and intra-ledger indices are JavaScript numbers that the
  package only ever uses as non-negative integers; they are embedded as \<open>nat\<close>.
  \<open>String(n)\<close> of such a number is its decimal numeral without leading zeros.
\<close>

definition digit_char :: "nat \<Rightarrow> char" where
  "digit_char d = ''0123456789'' ! d"

function js_String :: "nat \<Rightarrow> string" where
  "js_String n =
     (if n < 10 then [digit_char n] else js_String (n div 10) @ [digit_char (n mod 10)])"
  by pat_completeness auto
termination
  by (relation "measure (\<lambda>n. n)") auto

declare js_String.simps [simp del]

text \<open>Reading a decimal numeral back, used to say what "the decimal string of n" means.\<close>

definition isDigit :: "char \<Rightarrow> bool" where
  "isDigit c = (c \<in> set ''0123456789'')"

definition digit_val :: "char \<Rightarrow> nat" where
  "digit_val c = of_char c - 48"

definition decimal_value :: "string \<Rightarrow> nat" where
  "decimal_value s = foldl (\<lambda>acc c. 10 * acc + digit_val c) 0 s"

text \<open>
  \<open>padLeft(x, n, v)\<close> of utils: prepend \<open>v\<close> while the string is shorter than \<open>n\<close>.
  Every caller passes the one-character string \<open>'0'\<close>, so \<open>v\<close> is a character here.
\<close>

function padLeft :: "string \<Rightarrow> nat \<Rightarrow> char \<Rightarrow> string" where
  "padLeft x n v = (if length x < n then padLeft (v # x) n v else x)"
  by pat_completeness auto
termination
  by (relation "measure (\<lambda>(x, n, v). n - length x)") auto

declare padLeft.simps [simp del]

section \<open>Validation helpers (helpers.ts) and constants\<close>

definition MIN_BALANCE :: rat where
  "MIN_BALANCE = 20"

definition DECIMAL_PLACES :: nat where
  "DECIMAL_PLACES = 6"

definition DEFAULT_MAX_LEDGER_VERSION_OFFSET :: nat where
  "DEFAULT_MAX_LEDGER_VERSION_OFFSET = 100"

text \<open>\<open>ADDRESS_REGEX = /^r[1-9A-HJ-NP-Za-km-z]{25,34}$/\<close>\<close>

definition address_chars :: string where
  "address_chars = ''123456789ABCDEFGHJKLMNPQRSTUVWXYZabcdefghijkmnopqrstuvwxyz''"

definition isValidAddress :: "string \<Rightarrow> bool" where
  "isValidAddress a =
     (case a of
        [] \<Rightarrow> False
      | c # cs \<Rightarrow> c = CHR ''r'' \<and> 25 \<le> length cs \<and> length cs \<le> 34
                 \<and> list_all (\<lambda>x. x \<in> set address_chars) cs)"

text \<open>\<open>EXTRA_ID_REGEX = /^[0-9]+$/\<close>\<close>

definition isValidExtraId :: "string \<Rightarrow> bool" where
  "isValidExtraId e = (e \<noteq> [] \<and> list_all isDigit e)"

section \<open>Errors and BigNumber values\<close>

text \<open>
  Every \<open>throw new Error(...)\<close> of the package is one constructor of \<open>failure\<close>, named after
  its message. An exception is either such an \<open>Error\<close> or a value thrown by a dependency,
  of which only the constructor name matters (\<open>e ? e.constructor.name : ''\<close>; a falsy thrown
  value has the name \<open>''\<close>).
\<close>

datatype failure =
    InvalidAddress string
  | InvalidExtraId string
  | CannotGetBalanceWithExtraId string
  | UnsupportedFeeRateType
  | MissingPayportBalance
  | NaNPayportBalance
  | InvalidAmount
  | SendToSelf
  | BelowMinBalance
  | InsufficientBalance
  | InsufficientPayportBalance
  | InsufficientSweepBalance
  | NeuteredNode

datatype exn = Error failure | Foreign string

fun eName :: "exn \<Rightarrow> string" where
  "eName (Error f) = ''Error''"
| "eName (Foreign n) = n"

text \<open>
  bignumber.js values: NaN, the two infinities, or a finite number. A numeric string
  (an amount, a fee, a balance) is embedded as the BigNumber it denotes, so
  \<open>new BigNumber(s)\<close> and \<open>toString()\<close> are the identity. Comparisons with NaN are false.
\<close>

datatype bn = NaN | PosInf | NegInf | Fin rat

fun isNaN :: "bn \<Rightarrow> bool" where
  "isNaN NaN = True"
| "isNaN x = False"

fun negated :: "bn \<Rightarrow> bn" where
  "negated NaN = NaN"
| "negated PosInf = NegInf"
| "negated NegInf = PosInf"
| "negated (Fin a) = Fin (- a)"

fun plus :: "bn \<Rightarrow> bn \<Rightarrow> bn" where
  "plus (Fin a) (Fin b) = Fin (a + b)"
| "plus NaN y = NaN"
| "plus x NaN = NaN"
| "plus PosInf NegInf = NaN"
| "plus NegInf PosInf = NaN"
| "plus PosInf y = PosInf"
| "plus NegInf y = NegInf"
| "plus x PosInf = PosInf"
| "plus x NegInf = NegInf"

definition minus :: "bn \<Rightarrow> bn \<Rightarrow> bn" where
  "minus x y = plus x (negated y)"

fun lt :: "bn \<Rightarrow> bn \<Rightarrow> bool" where
  "lt (Fin a) (Fin b) = (a < b)"
| "lt NaN y = False"
| "lt x NaN = False"
| "lt NegInf y = (y \<noteq> NegInf)"
| "lt x PosInf = (x \<noteq> PosInf)"
| "lt x y = False"

definition gt :: "bn \<Rightarrow> bn \<Rightarrow> bool" where
  "gt x y = lt y x"

definition lte :: "bn \<Rightarrow> bn \<Rightarrow> bool" where
  "lte x y = (\<not> isNaN x \<and> \<not> isNaN y \<and> \<not> lt y x)"

section \<open>The ledger client (ripple-lib's RippleAPI)\<close>

subsection \<open>Data exchanged with the ledger client\<close>

text \<open>An entry of \<open>getBalances\<close>; \<open>value\<close> is \<open>None\<close> when the field is missing or empty (falsy).\<close>

record balance =
  currency :: string
  "value" :: "bn option"

record adjustment =
  adj_address :: string
  tag :: "nat option"

record payment_amount =
  pa_currency :: string
  pa_value :: bn

record payment_side =
  ps_address :: string
  ps_tag :: "nat option"
  ps_amount :: payment_amount

record payment =
  source :: payment_side
  destination :: payment_side

record instructions =
  i_maxLedgerVersionOffset :: nat
  i_sequence :: "nat option"

text \<open>The options the balance monitor passes to \<open>getTransactions\<close>.\<close>

record getTransactionOptions =
  earliestFirst :: bool
  excludeFailures :: bool
  limit :: nat
  start :: "string option"
  minLedgerVersion :: "nat option"
  maxLedgerVersion :: "nat option"

text \<open>An entry of \<open>outcome.balanceChanges[address]\<close>; here the value is kept as the string it is,
  because the monitor looks at its first character.\<close>

record balance_change =
  bc_currency :: string
  bc_value :: string

record outcome =
  result :: "string option"
  ledgerVersion :: nat
  indexInLedger :: nat
  balanceChanges :: "string \<Rightarrow> balance_change list option"

record tx_specification =
  spec_source :: adjustment
  spec_destination :: adjustment

record tx =
  tx_id :: string
  tx_type :: string
  tx_spec :: tx_specification
  tx_outcome :: "outcome option"

record ledger =
  ledgerHash :: string
  closeTime :: string

datatype direction = Out | In

record activity =
  act_type :: direction
  act_networkType :: string
  act_networkSymbol :: string
  act_assetSymbol :: string
  act_address :: string
  act_extraId :: "string option"
  act_amount :: string
  act_externalId :: string
  activitySequence :: string
  act_confirmationId :: string
  act_confirmationNumber :: nat
  act_timestamp :: string

subsection \<open>Interaction history\<close>

text \<open>
  The ledger client is a remote service with hidden state. It is embedded by the history of
  what the package has done to it so far: the client's answer to a request is a function of
  the request and of that history. The history also records what the package writes to its
  logger during retries and what it hands to the caller's callback.
\<close>

datatype request =
    GetBalances string
  | GetFee "rat option"
  | PreparePayment string payment instructions
  | GetTransactions string getTransactionOptions
  | GetLedger nat
  | GetServerInfo
  | OtherRequest string

datatype event =
    Call request
  | Disconnect
  | Connect
  | LogReconnect int
  | LogRetry int
  | Callback activity

type_synonym history = "event list"

text \<open>An asynchronous method of the package: it extends the history and resolves (\<open>Inr\<close>) or
  rejects (\<open>Inl\<close>).\<close>

type_synonym 'a async = "history \<Rightarrow> history \<times> (exn + 'a)"

record RippleAPI =
  isConnected :: "history \<Rightarrow> bool"
  connect :: "history \<Rightarrow> exn option"
  disconnect :: "history \<Rightarrow> exn option"
  getBalances :: "history \<Rightarrow> string \<Rightarrow> exn + balance list"
  getFee :: "history \<Rightarrow> rat option \<Rightarrow> exn + bn"
  preparePayment :: "history \<Rightarrow> string \<Rightarrow> payment \<Rightarrow> instructions \<Rightarrow> exn + string"
  getTransactions :: "history \<Rightarrow> string \<Rightarrow> getTransactionOptions \<Rightarrow> exn + tx list"
  getLedger :: "history \<Rightarrow> nat \<Rightarrow> exn + ledger"
  getServerInfo :: "history \<Rightarrow> exn + nat \<times> nat"

text \<open>A remote call as \<open>retryIfDisconnected\<close> receives it (\<open>() => rippleApi.method(args)\<close>):
  the request it sends and the client's answer after a given history.\<close>

type_synonym 'a remote_call = "request \<times> (history \<Rightarrow> exn + 'a)"

section \<open>Retrying remote calls (utils.ts)\<close>

definition CONNECTION_ERRORS :: "string list" where
  "CONNECTION_ERRORS = [''ConnectionError'', ''NotConnectedError'', ''DisconnectedError'']"

definition RETRYABLE_ERRORS :: "string list" where
  "RETRYABLE_ERRORS = CONNECTION_ERRORS @ [''TimeoutError'']"

definition MAX_RETRIES :: nat where
  "MAX_RETRIES = 3"

text \<open>
  What one run of the function handed to \<open>promiseRetry\<close> ends with: a value, an error, or the
  marker error that calling \<open>retry(e)\<close> throws.
\<close>

datatype 'a attempt = Resolved 'a | Rejected exn | Retry exn

text \<open>
  The npm package promise-retry: it runs the function with the attempt number, starting at
  1; when the function ends by \<open>retry(e)\<close> it runs it again as long as fewer than
  \<open>retries\<close> re-runs have been made, and otherwise rejects with \<open>e\<close>. Any other outcome is
  final. The delay between two runs is not part of the embedding.
\<close>

fun promiseRetry ::
  "(nat \<Rightarrow> history \<Rightarrow> history \<times> 'a attempt) \<Rightarrow> nat \<Rightarrow> nat \<Rightarrow> 'a async" where
  "promiseRetry f 0 attempt h =
     (case f attempt h of
        (h', Resolved v) \<Rightarrow> (h', Inr v)
      | (h', Rejected e) \<Rightarrow> (h', Inl e)
      | (h', Retry e) \<Rightarrow> (h', Inl e))"
| "promiseRetry f (Suc retries) attempt h =
     (case f attempt h of
        (h', Resolved v) \<Rightarrow> (h', Inr v)
      | (h', Rejected e) \<Rightarrow> (h', Inl e)
      | (h', Retry e) \<Rightarrow> promiseRetry f retries (Suc attempt) h')"

text \<open>The function \<open>retryIfDisconnected\<close> hands to \<open>promiseRetry\<close>: \<open>fn().catch(async e => ...)\<close>.\<close>

definition attemptFn :: "RippleAPI \<Rightarrow> 'a remote_call \<Rightarrow> nat \<Rightarrow> history \<Rightarrow> history \<times> 'a attempt" where
  "attemptFn rippleApi fn attempt h =
     (let h1 = h @ [Call (fst fn)] in
      case snd fn h of
        Inr v \<Rightarrow> (h1, Resolved v)
      | Inl e \<Rightarrow>
          if eName e \<in> set RETRYABLE_ERRORS then
            if eName e \<in> set CONNECTION_ERRORS then
              (let h2 = h1 @ [LogReconnect (int MAX_RETRIES - int attempt)];
                   (h3, d) = (if isConnected rippleApi h2
                              then (h2 @ [Disconnect], disconnect rippleApi h2)
                              else (h2, None))
               in case d of
                    Some e' \<Rightarrow> (h3, Rejected e')
                  | None \<Rightarrow>
                      (case connect rippleApi h3 of
                         Some e' \<Rightarrow> (h3 @ [Connect], Rejected e')
                       | None \<Rightarrow> (h3 @ [Connect], Retry e)))
            else (h1 @ [LogRetry (int MAX_RETRIES - int attempt)], Retry e)
          else (h1, Rejected e))"

definition retryIfDisconnected :: "'a remote_call \<Rightarrow> RippleAPI \<Rightarrow> 'a async" where
  "retryIfDisconnected fn rippleApi = promiseRetry (attemptFn rippleApi fn) MAX_RETRIES 1"




text \<open>The events a retried call for request \<open>q\<close> may add: the call itself, log lines,
  disconnects and connects.\<close>

fun retry_event :: "request \<Rightarrow> event \<Rightarrow> bool" where
  "retry_event q (Call r) = (r = q)"
| "retry_event q (Callback a) = False"
| "retry_event q ev = True"

fun is_prepare :: "event \<Rightarrow> bool" where
  "is_prepare (Call (PreparePayment a p i)) = True"
| "is_prepare ev = False"


text \<open>A ledger client whose connection never fails and is always up, and a call that always
  fails with the given error name: the simplest inputs to run the retry wrapper on.\<close>

definition steady_api :: RippleAPI where
  "steady_api =
     \<lparr>isConnected = (\<lambda>h. True), connect = (\<lambda>h. None), disconnect = (\<lambda>h. None),
      getBalances = (\<lambda>h a. Inr []), getFee = (\<lambda>h c. Inr (Fin ((case c of None \<Rightarrow> 12 / 10 | Some x \<Rightarrow> x) * 12 / 1000000))),
      preparePayment = (\<lambda>h a p i. Inr []), getTransactions = (\<lambda>h a opts. Inr []),
      getLedger = (\<lambda>h v. Inr \<lparr>ledgerHash = [], closeTime = []\<rparr>),
      getServerInfo = (\<lambda>h. Inr (0, 0))\<rparr>"


section \<open>Signatories and payports (BaseRipplePayments)\<close>

datatype secret = KeyPair (privateKey: string) (publicKey: string) | Secret string

record signatory =
  sig_address :: string
  sig_secret :: secret

record payport =
  address :: string
  extraId :: "string option"

text \<open>
  The two signatories an account holds for its lifetime: what \<open>getHotSignatory()\<close> and
  \<open>getDepositSignatory()\<close> return in both account variants. The payments object adds the
  ledger client and the configured \<open>maxLedgerVersionOffset\<close>.
\<close>

record signatories =
  hotSignatory :: signatory
  depositSignatory :: signatory

record payments = signatories +
  rippleApi :: RippleAPI
  config_maxLedgerVersionOffset :: "nat option"

definition doGetPayport :: "'a signatories_scheme \<Rightarrow> nat \<Rightarrow> payport" where
  "doGetPayport acct index =
     (if index = 0 then \<lparr>address = sig_address (hotSignatory acct), extraId = None\<rparr>
      else if index = 1 then \<lparr>address = sig_address (depositSignatory acct), extraId = None\<rparr>
      else \<lparr>address = sig_address (depositSignatory acct), extraId = Some (js_String index)\<rparr>)"

text \<open>\<open>tag || 1\<close>: JavaScript's \<open>||\<close> takes the right operand when the left one is falsy, which
  for a number-or-undefined means \<open>undefined\<close> or \<open>0\<close>.\<close>

definition js_or :: "nat option \<Rightarrow> nat \<Rightarrow> nat" where
  "js_or x d = (case x of None \<Rightarrow> d | Some t \<Rightarrow> if t = 0 then d else t)"

definition resolveIndexFromAdjustment :: "'a signatories_scheme \<Rightarrow> adjustment \<Rightarrow> nat option" where
  "resolveIndexFromAdjustment acct adjustment =
     (if adj_address adjustment = sig_address (hotSignatory acct) then Some 0
      else if adj_address adjustment = sig_address (depositSignatory acct)
        then Some (js_or (tag adjustment) 1)
      else None)"

text \<open>What callers may pass where a payport is expected: an index, an address, or a payport.\<close>

datatype payport_arg = Index nat | Address string | Payport payport

fun doResolvePayport :: "'a signatories_scheme \<Rightarrow> payport_arg \<Rightarrow> exn + payport" where
  "doResolvePayport acct (Index i) = Inr (doGetPayport acct i)"
| "doResolvePayport acct (Address a) =
     (if \<not> isValidAddress a then Inl (Error (InvalidAddress a))
      else Inr \<lparr>address = a, extraId = None\<rparr>)"
| "doResolvePayport acct (Payport p) =
     (if \<not> isValidAddress (address p) then Inl (Error (InvalidAddress (address p)))
      else case extraId p of
             None \<Rightarrow> Inr p
           | Some x \<Rightarrow> if \<not> isValidExtraId x then Inl (Error (InvalidExtraId x)) else Inr p)"

section \<open>Asynchronous methods\<close>

text \<open>\<open>await m\<close> followed by the rest of the method; a rejection of \<open>m\<close> ends the method.\<close>

definition await :: "'a async \<Rightarrow> ('a \<Rightarrow> 'b async) \<Rightarrow> 'b async" where
  "await m f h = (case m h of (h', Inl e) \<Rightarrow> (h', Inl e) | (h', Inr v) \<Rightarrow> f v h')"

definition resolve :: "'a \<Rightarrow> 'a async" where
  "resolve v h = (h, Inr v)"

definition throw :: "exn \<Rightarrow> 'a async" where
  "throw e h = (h, Inl e)"

definition sync :: "exn + 'a \<Rightarrow> 'a async" where
  "sync r h = (h, r)"

definition retryDced :: "payments \<Rightarrow> 'a remote_call \<Rightarrow> 'a async" where
  "retryDced acct fn = retryIfDisconnected fn (rippleApi acct)"

section \<open>Balances\<close>

record balance_result =
  confirmedBalance :: bn
  unconfirmedBalance :: bn
  sweepable :: bool

definition isSweepableAddressBalance :: "bn \<Rightarrow> bool" where
  "isSweepableAddressBalance balance = gt balance (Fin 0)"

text \<open>\<open>xrpBalance && xrpBalance.value ? xrpBalance.value : '0'\<close> for the first XRP entry.\<close>

definition xrpAmount :: "balance list \<Rightarrow> bn" where
  "xrpAmount balances =
     (case find (\<lambda>b. currency b = ''XRP'') balances of
        None \<Rightarrow> Fin 0
      | Some xrpBalance \<Rightarrow> (case value xrpBalance of None \<Rightarrow> Fin 0 | Some v \<Rightarrow> v))"

definition getBalance :: "payments \<Rightarrow> payport_arg \<Rightarrow> balance_result async" where
  "getBalance acct payportOrIndex =
     await (sync (doResolvePayport acct payportOrIndex)) (\<lambda>payport.
       case extraId payport of
         Some x \<Rightarrow> throw (Error (CannotGetBalanceWithExtraId x))
       | None \<Rightarrow>
           await (retryDced acct (GetBalances (address payport),
                                  \<lambda>h. getBalances (rippleApi acct) h (address payport)))
             (\<lambda>balances.
               resolve \<lparr>confirmedBalance = minus (xrpAmount balances) (Fin MIN_BALANCE),
                        unconfirmedBalance = Fin 0,
                        sweepable = isSweepableAddressBalance (xrpAmount balances)\<rparr>))"

section \<open>Fees\<close>

datatype FeeLevel = Custom | Low | Medium | High

datatype FeeRateType = Base | Main | BasePerWeight

text \<open>
  The fee part of the options, as payments-common types it: either a custom rate with its
  rate type, or a level that may be absent. \<open>FeeOptionLevel (Some Custom)\<close> is an option
  object that says \<open>custom\<close> without giving a rate type.
\<close>

datatype feeOption = FeeOptionCustom bn FeeRateType | FeeOptionLevel "FeeLevel option"

text \<open>
  The string converters of \<open>createUnitConverters(decimals)\<close> from payments-common. The
  package is a dependency, so the function is a parameter of everything that converts;
  a converter may throw.
\<close>

record unitConverters =
  toMainDenominationString :: "bn \<Rightarrow> exn + bn"
  toBaseDenominationString :: "bn \<Rightarrow> exn + bn"

type_synonym createUnitConverters = "nat \<Rightarrow> unitConverters"

definition toMainDenomination :: "createUnitConverters \<Rightarrow> bn \<Rightarrow> exn + bn" where
  "toMainDenomination cuc amount = toMainDenominationString (cuc DECIMAL_PLACES) amount"

definition toBaseDenomination :: "createUnitConverters \<Rightarrow> bn \<Rightarrow> exn + bn" where
  "toBaseDenomination cuc amount = toBaseDenominationString (cuc DECIMAL_PLACES) amount"

record resolved_fee =
  targetFeeLevel :: FeeLevel
  targetFeeRate :: bn
  targetFeeRateType :: FeeRateType
  feeMain :: bn
  feeBase :: bn

text \<open>The cushion of a level; the code leaves it undefined for any level other than low,
  medium and high.\<close>

fun cushion :: "FeeLevel \<Rightarrow> rat option" where
  "cushion Low = Some 1"
| "cushion Medium = Some (12 / 10)"
| "cushion High = Some (15 / 10)"
| "cushion Custom = None"

definition resolveFeeOption :: "createUnitConverters \<Rightarrow> payments \<Rightarrow> feeOption \<Rightarrow> resolved_fee async" where
  "resolveFeeOption cuc acct feeOption =
     (case feeOption of
        FeeOptionCustom rate rateType \<Rightarrow>
          (case rateType of
             Base \<Rightarrow>
               await (sync (toMainDenomination cuc rate)) (\<lambda>main.
                 resolve \<lparr>targetFeeLevel = Custom, targetFeeRate = rate,
                          targetFeeRateType = Base, feeMain = main, feeBase = rate\<rparr>)
           | Main \<Rightarrow>
               await (sync (toBaseDenomination cuc rate)) (\<lambda>base.
                 resolve \<lparr>targetFeeLevel = Custom, targetFeeRate = rate,
                          targetFeeRateType = Main, feeMain = rate, feeBase = base\<rparr>)
           | BasePerWeight \<Rightarrow> throw (Error UnsupportedFeeRateType))
      | FeeOptionLevel (Some Custom) \<Rightarrow> throw (Error UnsupportedFeeRateType)
      | FeeOptionLevel level \<Rightarrow>
          (let target = (case level of None \<Rightarrow> Medium | Some l \<Rightarrow> l) in
           await (retryDced acct (GetFee (cushion target),
                                  \<lambda>h. getFee (rippleApi acct) h (cushion target)))
             (\<lambda>main.
               await (sync (toBaseDenomination cuc main)) (\<lambda>base.
                 resolve \<lparr>targetFeeLevel = target, targetFeeRate = main,
                          targetFeeRateType = Main, feeMain = main, feeBase = base\<rparr>))))"

section \<open>Building transactions\<close>

record options =
  fee_option :: feeOption
  maxLedgerVersionOffset :: "nat option"
  sequence :: "nat option"
  payportBalance :: "bn option"

record fromTo =
  fromAddress :: string
  fromIndex :: nat
  fromExtraId :: "string option"
  fromPayport :: payport
  toAddress :: string
  toIndex :: "nat option"
  toExtraId :: "string option"
  toPayport :: payport

datatype TransactionStatus = Unsigned | Signed | Pending | Confirmed | Failed

record unsigned_tx =
  u_id :: "string option"
  u_fromIndex :: nat
  u_fromAddress :: string
  u_fromExtraId :: "string option"
  u_toIndex :: "nat option"
  u_toAddress :: string
  u_toExtraId :: "string option"
  u_amount :: bn
  u_targetFeeLevel :: FeeLevel
  u_targetFeeRate :: bn
  u_targetFeeRateType :: FeeRateType
  u_fee :: bn
  u_status :: TransactionStatus
  u_data :: string

definition resolveFromTo :: "payments \<Rightarrow> nat \<Rightarrow> payport_arg \<Rightarrow> fromTo async" where
  "resolveFromTo acct from to =
     (let fp = doGetPayport acct from in
      await (sync (doResolvePayport acct to)) (\<lambda>tp.
        resolve \<lparr>fromAddress = address fp,
                 fromIndex = from,
                 fromExtraId = extraId fp,
                 fromPayport = fp,
                 toAddress = address tp,
                 toIndex = (case to of Index i \<Rightarrow> Some i | _ \<Rightarrow> None),
                 toExtraId = extraId tp,
                 toPayport = tp\<rparr>))"

text \<open>\<open>options.payportBalance\<close> is \<open>None\<close> when it is not a string.\<close>

definition resolvePayportBalance :: "payments \<Rightarrow> payport \<Rightarrow> options \<Rightarrow> bn async" where
  "resolvePayportBalance acct fp options =
     (case extraId fp of
        None \<Rightarrow>
          await (getBalance acct (Payport fp)) (\<lambda>balances.
            resolve (confirmedBalance balances))
      | Some x \<Rightarrow>
          (case payportBalance options of
             None \<Rightarrow> throw (Error MissingPayportBalance)
           | Some pb \<Rightarrow>
               if isNaN pb then throw (Error NaNPayportBalance)
               else resolve pb))"

text \<open>\<open>extraIdToTag\<close>: \<open>Number.parseInt\<close> of an extraId, which is a string of digits wherever
  the package builds a payment.\<close>

definition extraIdToTag :: "string option \<Rightarrow> nat option" where
  "extraIdToTag e = map_option decimal_value e"

definition doCreateTransaction ::
  "payments \<Rightarrow> fromTo \<Rightarrow> resolved_fee \<Rightarrow> bn \<Rightarrow> bn \<Rightarrow> options \<Rightarrow> unsigned_tx async" where
  "doCreateTransaction acct ft fee amount pb options =
     (if isNaN amount \<or> lte amount (Fin 0) then throw (Error InvalidAmount)
      else if fromAddress ft = toAddress ft then throw (Error SendToSelf)
      else
        (let offset =
               js_or (maxLedgerVersionOffset options)
                 (js_or (config_maxLedgerVersionOffset acct) DEFAULT_MAX_LEDGER_VERSION_OFFSET)
         in
         await (getBalance acct (Payport \<lparr>address = fromAddress ft, extraId = None\<rparr>))
           (\<lambda>addressBalances.
             let addressBalance = confirmedBalance addressBalances;
                 totalValue = plus amount (feeMain fee)
             in
             if lt addressBalance (Fin 0) then throw (Error BelowMinBalance)
             else if lt (minus addressBalance totalValue) (Fin 0)
               then throw (Error InsufficientBalance)
             else if fromExtraId ft \<noteq> None \<and> gt totalValue pb
               then throw (Error InsufficientPayportBalance)
             else
               (let spec =
                  \<lparr>source = \<lparr>ps_address = fromAddress ft,
                             ps_tag = extraIdToTag (fromExtraId ft),
                             ps_amount = \<lparr>pa_currency = ''XRP'', pa_value = amount\<rparr>\<rparr>,
                   destination = \<lparr>ps_address = toAddress ft,
                                  ps_tag = extraIdToTag (toExtraId ft),
                                  ps_amount = \<lparr>pa_currency = ''XRP'', pa_value = amount\<rparr>\<rparr>\<rparr>;
                    instr = \<lparr>i_maxLedgerVersionOffset = offset,
                             i_sequence = sequence options\<rparr>
                in
                await (retryDced acct
                         (PreparePayment (fromAddress ft) spec instr,
                          \<lambda>h. preparePayment (rippleApi acct) h (fromAddress ft) spec instr))
                  (\<lambda>preparedTx.
                    resolve \<lparr>u_id = None,
                             u_fromIndex = fromIndex ft,
                             u_fromAddress = fromAddress ft,
                             u_fromExtraId = fromExtraId ft,
                             u_toIndex = toIndex ft,
                             u_toAddress = toAddress ft,
                             u_toExtraId = toExtraId ft,
                             u_amount = amount,
                             u_targetFeeLevel = targetFeeLevel fee,
                             u_targetFeeRate = targetFeeRate fee,
                             u_targetFeeRateType = targetFeeRateType fee,
                             u_fee = feeMain fee,
                             u_status = Unsigned,
                             u_data = preparedTx\<rparr>)))))"

definition createTransaction ::
  "createUnitConverters \<Rightarrow> payments \<Rightarrow> nat \<Rightarrow> payport_arg \<Rightarrow> bn \<Rightarrow> options \<Rightarrow> unsigned_tx async" where
  "createTransaction cuc acct from to amount options =
     await (resolveFromTo acct from to) (\<lambda>ft.
       await (resolveFeeOption cuc acct (fee_option options)) (\<lambda>fee.
         await (resolvePayportBalance acct (fromPayport ft) options) (\<lambda>pb.
           doCreateTransaction acct ft fee amount pb options)))"

definition createSweepTransaction ::
  "createUnitConverters \<Rightarrow> payments \<Rightarrow> nat \<Rightarrow> payport_arg \<Rightarrow> options \<Rightarrow> unsigned_tx async" where
  "createSweepTransaction cuc acct from to options =
     await (resolveFromTo acct from to) (\<lambda>ft.
       await (resolveFeeOption cuc acct (fee_option options)) (\<lambda>fee.
         await (resolvePayportBalance acct (fromPayport ft) options) (\<lambda>pb.
           let amountBn = minus pb (feeMain fee) in
           if lt amountBn (Fin 0) then throw (Error InsufficientSweepBalance)
           else doCreateTransaction acct ft fee amountBn pb options)))"

section \<open>The balance monitor (RippleBalanceMonitor)\<close>

text \<open>
  The monitor holds a ledger client and the network type. A caller's callback is embedded
  like a remote call: what it does after a given history is to resolve (\<open>None\<close>) or to throw.
\<close>

record monitor =
  m_rippleApi :: RippleAPI
  m_networkType :: string


definition m_retryDced :: "monitor \<Rightarrow> 'a remote_call \<Rightarrow> 'a async" where
  "m_retryDced m fn = retryIfDisconnected fn (m_rippleApi m)"

definition startsWith :: "string \<Rightarrow> string \<Rightarrow> bool" where
  "startsWith s p = (take (length p) s = p)"

definition isPaymentTx :: "tx \<Rightarrow> bool" where
  "isPaymentTx t = (tx_type t = ''payment'')"

text \<open>The ordering key built inside \<open>txToBalanceActivity\<close> from the ledger version, the index
  in the ledger and the direction.\<close>

definition sequenceKey :: "nat \<Rightarrow> nat \<Rightarrow> direction \<Rightarrow> string" where
  "sequenceKey version index type =
     (let primarySequence = padLeft (js_String version) 12 (CHR ''0'');
          secondarySequence = padLeft (js_String index) 8 (CHR ''0'');
          tertiarySequence = (if type = Out then ''00'' else ''01'')
      in primarySequence @ ''.'' @ secondarySequence @ ''.'' @ tertiarySequence)"

definition txToBalanceActivity :: "monitor \<Rightarrow> string \<Rightarrow> tx \<Rightarrow> activity option async" where
  "txToBalanceActivity m addr t =
     (case tx_outcome t of
        None \<Rightarrow> resolve None
      | Some oc \<Rightarrow>
          (case result oc of
             None \<Rightarrow> resolve None
           | Some txResult \<Rightarrow>
               if \<not> (startsWith txResult ''tes'' \<or> startsWith txResult ''tec'') then resolve None
               else
                 await (m_retryDced m (GetLedger (ledgerVersion oc),
                                       \<lambda>h. getLedger (m_rippleApi m) h (ledgerVersion oc)))
                   (\<lambda>ledger.
                     case find (\<lambda>b. bc_currency b = ''XRP'')
                            (case balanceChanges oc addr of None \<Rightarrow> [] | Some bs \<Rightarrow> bs) of
                       None \<Rightarrow> resolve None
                     | Some balanceChange \<Rightarrow>
                         (let amount = bc_value balanceChange;
                              type = (if startsWith amount ''-'' then Out else In);
                              tg = (if isPaymentTx t
                                    then tag (if type = Out then spec_source (tx_spec t)
                                              else spec_destination (tx_spec t))
                                    else None)
                          in resolve
                               (Some \<lparr>act_type = type,
                                      act_networkType = m_networkType m,
                                      act_networkSymbol = ''XRP'',
                                      act_assetSymbol = bc_currency balanceChange,
                                      act_address = addr,
                                      act_extraId = map_option js_String tg,
                                      act_amount = amount,
                                      act_externalId = tx_id t,
                                      activitySequence =
                                        sequenceKey (ledgerVersion oc) (indexInLedger oc) type,
                                      act_confirmationId = ledgerHash ledger,
                                      act_confirmationNumber = ledgerVersion oc,
                                      act_timestamp = closeTime ledger\<rparr>)))))"










section \<open>Key derivation (bip32.ts)\<close>





















section \<open>A small test account\<close>

text \<open>
  Concrete inputs to run the methods on: two well-formed addresses, a ledger client that
  reports one XRP balance for every address, and decimal unit converters.
\<close>

definition hot_address :: string where
  "hot_address = ''rHb9CJAWyB4rj91VRWn96DkukG4bwdtyTh''"

definition deposit_address :: string where
  "deposit_address = ''rPT1Sjq2YGrBMTttX4GZHjKu9dyfzbpAYe''"

definition funded_api :: "rat \<Rightarrow> RippleAPI" where
  "funded_api x =
     steady_api\<lparr>getBalances := (\<lambda>h a. Inr [\<lparr>currency = ''XRP'', value = Some (Fin x)\<rparr>])\<rparr>"

definition test_account :: "rat \<Rightarrow> payments" where
  "test_account x =
     \<lparr>hotSignatory = \<lparr>sig_address = hot_address, sig_secret = Secret ''''\<rparr>,
      depositSignatory = \<lparr>sig_address = deposit_address, sig_secret = Secret ''''\<rparr>,
      rippleApi = funded_api x,
      config_maxLedgerVersionOffset = None\<rparr>"

fun scaled :: "rat \<Rightarrow> bn \<Rightarrow> exn + bn" where
  "scaled k (Fin a) = Inr (Fin (k * a))"
| "scaled k x = Inl (Foreign ''Error'')"

definition decimal_converters :: createUnitConverters where
  "decimal_converters d =
     \<lparr>toMainDenominationString = scaled (1 / 10 ^ d),
      toBaseDenominationString = scaled (10 ^ d)\<rparr>"

definition test_options :: "feeOption \<Rightarrow> bn option \<Rightarrow> options" where
  "test_options fo pb =
     \<lparr>fee_option = fo, maxLedgerVersionOffset = None, sequence = None, payportBalance = pb\<rparr>"

definition test_fromTo :: "string option \<Rightarrow> fromTo" where
  "test_fromTo x =
     \<lparr>fromAddress = deposit_address, fromIndex = (case x of None \<Rightarrow> 1 | Some s \<Rightarrow> decimal_value s),
      fromExtraId = x, fromPayport = \<lparr>address = deposit_address, extraId = x\<rparr>,
      toAddress = hot_address, toIndex = Some 0, toExtraId = None,
      toPayport = \<lparr>address = hot_address, extraId = None\<rparr>\<rparr>"

definition test_fee :: resolved_fee where
  "test_fee =
     \<lparr>targetFeeLevel = Medium, targetFeeRate = Fin (1 / 100), targetFeeRateType = Main,
      feeMain = Fin (1 / 100), feeBase = Fin 10000\<rparr>"

text \<open>A payment of 1 XRP from the hot to the deposit address with tag 7, as the ledger client
  reports it, at a given ledger version and index; a ledger history of ten of them; a ledger
  client that serves that history in pages; and a callback that accepts everything.\<close>

definition test_tx_at :: "nat \<Rightarrow> nat \<Rightarrow> string \<Rightarrow> tx" where
  "test_tx_at version index ident =
     \<lparr>tx_id = ident, tx_type = ''payment'',
      tx_spec = \<lparr>spec_source = \<lparr>adj_address = hot_address, tag = None\<rparr>,
                 spec_destination = \<lparr>adj_address = deposit_address, tag = Some 7\<rparr>\<rparr>,
      tx_outcome =
        Some \<lparr>result = Some ''tesSUCCESS'', ledgerVersion = version, indexInLedger = index,
              balanceChanges =
                (\<lambda>a. if a = hot_address
                        then Some [\<lparr>bc_currency = ''XRP'', bc_value = ''-1.000012''\<rparr>]
                      else if a = deposit_address
                        then Some [\<lparr>bc_currency = ''XRP'', bc_value = ''1''\<rparr>]
                      else None)\<rparr>\<rparr>"

definition test_history :: "tx list" where
  "test_history =
     map (\<lambda>i. test_tx_at (1000000 + i) 3 (js_String i)) [0, 1, 2, 3, 4, 5, 6, 7, 8, 9]"

definition paged_api :: RippleAPI where
  "paged_api =
     steady_api
       \<lparr>getTransactions :=
          (\<lambda>h a opts.
             Inr (take (limit opts)
                    (case start opts of
                       None \<Rightarrow> test_history
                     | Some c \<Rightarrow> dropWhile (\<lambda>t. tx_id t \<noteq> c) test_history))),
        getServerInfo := (\<lambda>h. Inr (1000000, 1000020))\<rparr>"

definition test_monitor :: monitor where
  "test_monitor = \<lparr>m_rippleApi = paged_api, m_networkType = ''mainnet''\<rparr>"


definition sequenceOf :: "history \<times> (exn + activity option) \<Rightarrow> string option" where
  "sequenceOf r = (case snd r of Inr (Some a) \<Rightarrow> Some (activitySequence a) | _ \<Rightarrow> None)"

section \<open>Decimal numerals\<close>

lemma padLeft_replicate: "padLeft x n v = replicate (n - length x) v @ x"
proof (induction x n v rule: padLeft.induct)
  case (1 x n v)
  show ?case
  proof (cases "length x < n")
    case True
    then have "n - length x = Suc (n - length (v # x))" by simp
    with 1 True show ?thesis
      by (subst padLeft.simps) (simp add: replicate_app_Cons_same)
  next
    case False
    then show ?thesis by (subst padLeft.simps) simp
  qed
qed

lemma below_ten_cases:
  assumes "d < (10::nat)"
  shows "d = 0 \<or> d = 1 \<or> d = 2 \<or> d = 3 \<or> d = 4 \<or> d = 5 \<or> d = 6 \<or> d = 7 \<or> d = 8 \<or> d = 9"
  using assms by arith

lemma digit_val_digit_char: "d < 10 \<Longrightarrow> digit_val (digit_char d) = d"
  using below_ten_cases [of d] by (auto simp: digit_val_def digit_char_def)

lemma isDigit_digit_char: "d < 10 \<Longrightarrow> isDigit (digit_char d)"
  using below_ten_cases [of d] by (auto simp: isDigit_def digit_char_def)

lemma decimal_value_snoc:
  "decimal_value (s @ [c]) = 10 * decimal_value s + digit_val c"
  by (simp add: decimal_value_def)

lemma decimal_value_js_String: "decimal_value (js_String n) = n"
proof (induction n rule: js_String.induct)
  case (1 n)
  show ?case
  proof (cases "n < 10")
    case True
    then show ?thesis
      by (subst js_String.simps) (simp add: decimal_value_def digit_val_digit_char)
  next
    case False
    with 1 have "decimal_value (js_String (n div 10)) = n div 10" by simp
    with False show ?thesis
      by (subst js_String.simps) (simp add: decimal_value_snoc digit_val_digit_char)
  qed
qed

lemma digits_js_String: "list_all isDigit (js_String n)"
proof (induction n rule: js_String.induct)
  case (1 n)
  show ?case
  proof (cases "n < 10")
    case True
    then show ?thesis
      by (subst js_String.simps) (simp add: isDigit_digit_char)
  next
    case False
    with 1 have "list_all isDigit (js_String (n div 10))" by simp
    with False show ?thesis
      by (subst js_String.simps) (simp add: isDigit_digit_char)
  qed
qed



section \<open>The retry wrapper\<close>




lemma attemptFn_resolved:
  assumes "snd fn h = Inr v"
  shows "attemptFn api fn attempt h = (h @ [Call (fst fn)], Resolved v)"
  using assms by (simp add: attemptFn_def Let_def)









section \<open>What a retried call adds to the history\<close>

lemma attemptFn_events:
  "\<exists>evs. fst (attemptFn api fn a h) = h @ Call (fst fn) # evs
         \<and> list_all (retry_event (fst fn)) evs"
  by (cases "snd fn h")
     (auto simp: attemptFn_def Let_def split: option.splits)

lemma promiseRetry_events:
  "\<exists>evs. fst (promiseRetry (attemptFn api fn) n a h) = h @ Call (fst fn) # evs
         \<and> list_all (retry_event (fst fn)) evs"
proof (induction n arbitrary: a h)
  case 0
  from attemptFn_events [of api fn a h] obtain evs where
    e: "fst (attemptFn api fn a h) = h @ Call (fst fn) # evs"
       "list_all (retry_event (fst fn)) evs" by blast
  then show ?case
    by (cases "attemptFn api fn a h") (auto split: attempt.splits)
next
  case (Suc n)
  from attemptFn_events [of api fn a h] obtain evs where
    e: "fst (attemptFn api fn a h) = h @ Call (fst fn) # evs"
       "list_all (retry_event (fst fn)) evs" by blast
  obtain h1 r where r: "attemptFn api fn a h = (h1, r)" by (cases "attemptFn api fn a h")
  with e have h1: "h1 = h @ Call (fst fn) # evs" by simp
  show ?case
  proof (cases r)
    case (Retry x)
    from Suc.IH [of "Suc a" h1] obtain evs' where
      e': "fst (promiseRetry (attemptFn api fn) n (Suc a) h1) = h1 @ Call (fst fn) # evs'"
          "list_all (retry_event (fst fn)) evs'" by blast
    have "fst (promiseRetry (attemptFn api fn) (Suc n) a h)
          = h @ Call (fst fn) # (evs @ Call (fst fn) # evs')"
      using r Retry e' h1 by simp
    moreover have "list_all (retry_event (fst fn)) (evs @ Call (fst fn) # evs')"
      using e e' by simp
    ultimately show ?thesis by blast
  next
    case (Resolved v)
    with r e h1 show ?thesis by auto
  next
    case (Rejected x)
    with r e h1 show ?thesis by auto
  qed
qed

lemma retryIfDisconnected_events:
  "\<exists>evs. fst (retryIfDisconnected fn api h) = h @ Call (fst fn) # evs
         \<and> list_all (retry_event (fst fn)) evs"
  unfolding retryIfDisconnected_def by (rule promiseRetry_events)

lemma retry_event_not_prepare:
  assumes "list_all (retry_event q) evs" and "\<not> is_prepare (Call q)"
  shows "\<not> list_ex is_prepare evs"
proof -
  have "\<And>ev. retry_event q ev \<Longrightarrow> \<not> is_prepare ev"
  proof -
    fix ev
    assume "retry_event q ev"
    with assms(2) show "\<not> is_prepare ev"
      by (cases ev) auto
  qed
  with assms(1) show ?thesis
    by (auto simp: list_all_iff list_ex_iff)
qed

section \<open>Payport resolution\<close>



text \<open>
  C6 as the spec states it, "the tag if present, else 1", fails for the tag 0: the code
  evaluates \<open>tag || 1\<close>, and 0 is falsy.
\<close>

theorem resolveIndexFromAdjustment_tag_zero:
  "resolveIndexFromAdjustment
     \<lparr>hotSignatory = \<lparr>sig_address = ''rHOT'', sig_secret = Secret ''''\<rparr>,
      depositSignatory = \<lparr>sig_address = ''rDEP'', sig_secret = Secret ''''\<rparr>\<rparr>
     \<lparr>adj_address = ''rDEP'', tag = Some 0\<rparr> = Some 1"
  by (simp add: resolveIndexFromAdjustment_def js_or_def)

text \<open>
  C6, amended. The hot signatory's address resolves to 0; otherwise the deposit signatory's
  address resolves to the tag when one is present and not 0, and to 1 when the tag is absent
  or 0; any other address resolves to null. With the deposit address and tag 42 the result
  is 42.
\<close>

theorem resolveIndexFromAdjustment_cases:
  "(adj_address a = sig_address (hotSignatory acct) \<longrightarrow>
      resolveIndexFromAdjustment acct a = Some 0)
   \<and> (adj_address a \<noteq> sig_address (hotSignatory acct)
        \<and> adj_address a = sig_address (depositSignatory acct) \<longrightarrow>
      resolveIndexFromAdjustment acct a =
        Some (case tag a of None \<Rightarrow> 1 | Some t \<Rightarrow> if t = 0 then 1 else t))
   \<and> (adj_address a \<noteq> sig_address (hotSignatory acct)
        \<and> adj_address a = sig_address (depositSignatory acct) \<and> tag a = Some 42 \<longrightarrow>
      resolveIndexFromAdjustment acct a = Some 42)
   \<and> (adj_address a \<noteq> sig_address (hotSignatory acct)
        \<and> adj_address a \<noteq> sig_address (depositSignatory acct) \<longrightarrow>
      resolveIndexFromAdjustment acct a = None)"
  by (auto simp: resolveIndexFromAdjustment_def js_or_def split: option.splits)

theorem resolveIndexFromAdjustment_cases_witness:
  "resolveIndexFromAdjustment
     \<lparr>hotSignatory = \<lparr>sig_address = ''rHOT'', sig_secret = Secret ''''\<rparr>,
      depositSignatory = \<lparr>sig_address = ''rDEP'', sig_secret = Secret ''''\<rparr>\<rparr>
     \<lparr>adj_address = ''rHOT'', tag = Some 7\<rparr> = Some 0
   \<and> resolveIndexFromAdjustment
     \<lparr>hotSignatory = \<lparr>sig_address = ''rHOT'', sig_secret = Secret ''''\<rparr>,
      depositSignatory = \<lparr>sig_address = ''rDEP'', sig_secret = Secret ''''\<rparr>\<rparr>
     \<lparr>adj_address = ''rDEP'', tag = Some 42\<rparr> = Some 42
   \<and> resolveIndexFromAdjustment
     \<lparr>hotSignatory = \<lparr>sig_address = ''rHOT'', sig_secret = Secret ''''\<rparr>,
      depositSignatory = \<lparr>sig_address = ''rDEP'', sig_secret = Secret ''''\<rparr>\<rparr>
     \<lparr>adj_address = ''rDEP'', tag = None\<rparr> = Some 1
   \<and> resolveIndexFromAdjustment
     \<lparr>hotSignatory = \<lparr>sig_address = ''rHOT'', sig_secret = Secret ''''\<rparr>,
      depositSignatory = \<lparr>sig_address = ''rDEP'', sig_secret = Secret ''''\<rparr>\<rparr>
     \<lparr>adj_address = ''rOTHER'', tag = None\<rparr> = None"
proof -
  let ?acct = "\<lparr>hotSignatory = \<lparr>sig_address = ''rHOT'', sig_secret = Secret ''''\<rparr>,
      depositSignatory = \<lparr>sig_address = ''rDEP'', sig_secret = Secret ''''\<rparr>\<rparr>"
  show ?thesis
    using resolveIndexFromAdjustment_cases [of "\<lparr>adj_address = ''rHOT'', tag = Some 7\<rparr>" ?acct]
      resolveIndexFromAdjustment_cases [of "\<lparr>adj_address = ''rDEP'', tag = Some 42\<rparr>" ?acct]
      resolveIndexFromAdjustment_cases [of "\<lparr>adj_address = ''rDEP'', tag = None\<rparr>" ?acct]
      resolveIndexFromAdjustment_cases [of "\<lparr>adj_address = ''rOTHER'', tag = None\<rparr>" ?acct]
    by simp
qed

section \<open>Balances\<close>

lemma isValidAddress_test:
  "isValidAddress hot_address" "isValidAddress deposit_address"
  by (simp_all add: isValidAddress_def hot_address_def deposit_address_def address_chars_def)

lemma test_addresses_differ: "hot_address \<noteq> deposit_address"
  by (simp add: hot_address_def deposit_address_def)

lemma getBalance_extraId:
  assumes "extraId p = Some x"
  shows "\<exists>e. getBalance acct (Payport p) h = (h, Inl e)"
  using assms
  by (simp add: getBalance_def await_def sync_def throw_def)

lemma getBalance_bare:
  assumes "doResolvePayport acct arg = Inr p" and "extraId p = None"
    and "retryDced acct (GetBalances (address p),
                         \<lambda>h. getBalances (rippleApi acct) h (address p)) h = (h', Inr balances)"
  shows "getBalance acct arg h =
           (h', Inr \<lparr>confirmedBalance = minus (xrpAmount balances) (Fin 20),
                     unconfirmedBalance = Fin 0,
                     sweepable = gt (xrpAmount balances) (Fin 0)\<rparr>)"
  using assms
  by (simp add: getBalance_def await_def sync_def resolve_def MIN_BALANCE_def
      isSweepableAddressBalance_def)

text \<open>
  C10. A payport with an extraId never gets a balance: \<open>getBalance\<close> rejects and leaves the
  history as it was, so no request reached the ledger client; when the payport is
  well-formed the error is the one that names the extraId, and so it is for every index from
  2 on. For a bare address whose balances the client returns, the confirmed balance is the
  XRP balance minus 20 and the sweepable flag is "XRP balance > 0": an address holding more
  than 0 and less than 20 XRP is sweepable with a negative confirmed balance.
\<close>

theorem getBalance_cases:
  "(extraId p = Some x \<longrightarrow>
      (\<exists>e. getBalance acct (Payport p) h = (h, Inl e))
      \<and> (isValidAddress (address p) \<and> isValidExtraId x \<longrightarrow>
           getBalance acct (Payport p) h = (h, Inl (Error (CannotGetBalanceWithExtraId x)))))
   \<and> (2 \<le> i \<longrightarrow>
        getBalance acct (Index i) h
          = (h, Inl (Error (CannotGetBalanceWithExtraId (js_String i)))))
   \<and> (isValidAddress a
        \<and> retryDced acct (GetBalances a, \<lambda>h. getBalances (rippleApi acct) h a) h
            = (h', Inr balances) \<longrightarrow>
        getBalance acct (Address a) h
          = (h', Inr \<lparr>confirmedBalance = minus (xrpAmount balances) (Fin 20),
                      unconfirmedBalance = Fin 0,
                      sweepable = gt (xrpAmount balances) (Fin 0)\<rparr>)
        \<and> getBalance acct (Payport \<lparr>address = a, extraId = None\<rparr>) h
            = getBalance acct (Address a) h
        \<and> (\<forall>b v. find (\<lambda>b. currency b = ''XRP'') balances = Some b \<and> value b = Some (Fin v) \<longrightarrow>
              (\<exists>r. getBalance acct (Address a) h = (h', Inr r)
                   \<and> confirmedBalance r = Fin (v - 20)
                   \<and> sweepable r = (0 < v)
                   \<and> (0 < v \<and> v < 20 \<longrightarrow> sweepable r \<and> lt (confirmedBalance r) (Fin 0)))))"
proof (intro conjI impI)
  assume "extraId p = Some x"
  then show "\<exists>e. getBalance acct (Payport p) h = (h, Inl e)"
    by (rule getBalance_extraId)
next
  assume "extraId p = Some x" and "isValidAddress (address p) \<and> isValidExtraId x"
  then show "getBalance acct (Payport p) h = (h, Inl (Error (CannotGetBalanceWithExtraId x)))"
    by (simp add: getBalance_def await_def sync_def throw_def)
next
  assume "2 \<le> i"
  then show "getBalance acct (Index i) h
          = (h, Inl (Error (CannotGetBalanceWithExtraId (js_String i))))"
    by (simp add: getBalance_def await_def sync_def throw_def doGetPayport_def)
next
  assume a: "isValidAddress a
        \<and> retryDced acct (GetBalances a, \<lambda>h. getBalances (rippleApi acct) h a) h
            = (h', Inr balances)"
  then have r: "getBalance acct (Address a) h
          = (h', Inr \<lparr>confirmedBalance = minus (xrpAmount balances) (Fin 20),
                      unconfirmedBalance = Fin 0,
                      sweepable = gt (xrpAmount balances) (Fin 0)\<rparr>)"
    by (intro getBalance_bare [where p = "\<lparr>address = a, extraId = None\<rparr>"]) simp_all
  then show "getBalance acct (Address a) h
          = (h', Inr \<lparr>confirmedBalance = minus (xrpAmount balances) (Fin 20),
                      unconfirmedBalance = Fin 0,
                      sweepable = gt (xrpAmount balances) (Fin 0)\<rparr>)" .
  from a have "getBalance acct (Payport \<lparr>address = a, extraId = None\<rparr>) h
          = (h', Inr \<lparr>confirmedBalance = minus (xrpAmount balances) (Fin 20),
                      unconfirmedBalance = Fin 0,
                      sweepable = gt (xrpAmount balances) (Fin 0)\<rparr>)"
    by (intro getBalance_bare [where p = "\<lparr>address = a, extraId = None\<rparr>"]) simp_all
  with r show "getBalance acct (Payport \<lparr>address = a, extraId = None\<rparr>) h
            = getBalance acct (Address a) h" by simp
  show "\<forall>b v. find (\<lambda>b. currency b = ''XRP'') balances = Some b \<and> value b = Some (Fin v) \<longrightarrow>
              (\<exists>r. getBalance acct (Address a) h = (h', Inr r)
                   \<and> confirmedBalance r = Fin (v - 20)
                   \<and> sweepable r = (0 < v)
                   \<and> (0 < v \<and> v < 20 \<longrightarrow> sweepable r \<and> lt (confirmedBalance r) (Fin 0)))"
    using r by (auto simp: xrpAmount_def minus_def gt_def)
qed

theorem getBalance_cases_witness:
  "getBalance (test_account 5) (Payport \<lparr>address = deposit_address, extraId = Some ''7''\<rparr>) []
     = ([], Inl (Error (CannotGetBalanceWithExtraId ''7'')))
   \<and> getBalance (test_account 5) (Index 7) []
       = ([], Inl (Error (CannotGetBalanceWithExtraId ''7'')))
   \<and> getBalance (test_account 5) (Address hot_address) []
       = ([Call (GetBalances hot_address)],
          Inr \<lparr>confirmedBalance = Fin (- 15), unconfirmedBalance = Fin 0, sweepable = True\<rparr>)"
proof -
  let ?p = "\<lparr>address = deposit_address, extraId = Some ''7''\<rparr>"
  let ?bs = "[\<lparr>currency = ''XRP'', value = Some (Fin 5)\<rparr>]"
  have s: "js_String 7 = ''7''"
    by (simp add: js_String.simps digit_char_def)
  have v: "isValidAddress (address ?p) \<and> isValidExtraId ''7''"
    by (simp add: isValidAddress_test isValidExtraId_def isDigit_def)
  have q: "isValidAddress hot_address
      \<and> retryDced (test_account 5)
          (GetBalances hot_address, \<lambda>h. getBalances (rippleApi (test_account 5)) h hot_address) []
        = ([Call (GetBalances hot_address)], Inr ?bs)"
    by (simp add: isValidAddress_test retryDced_def retryIfDisconnected_def MAX_RETRIES_def
        numeral_3_eq_3 attemptFn_def test_account_def funded_api_def steady_api_def)
  have 1: "getBalance (test_account 5) (Payport ?p) []
             = ([], Inl (Error (CannotGetBalanceWithExtraId ''7'')))"
    using getBalance_cases [of ?p "''7''" "test_account 5" "[]"] v by simp
  have 2: "getBalance (test_account 5) (Index 7) []
             = ([], Inl (Error (CannotGetBalanceWithExtraId ''7'')))"
    using getBalance_cases [where i = 7 and acct = "test_account 5" and h = "[]"] s by simp
  have 3: "getBalance (test_account 5) (Address hot_address) []
       = ([Call (GetBalances hot_address)],
          Inr \<lparr>confirmedBalance = minus (xrpAmount ?bs) (Fin 20), unconfirmedBalance = Fin 0,
               sweepable = gt (xrpAmount ?bs) (Fin 0)\<rparr>)"
    using getBalance_cases [where a = hot_address and acct = "test_account 5" and h = "[]"
        and h' = "[Call (GetBalances hot_address)]" and balances = ?bs] q
    by blast
  show ?thesis
    unfolding 1 2 3 by (simp add: xrpAmount_def minus_def gt_def)
qed

section \<open>Fee resolution\<close>

lemma resolveFeeOption_level:
  assumes "level \<noteq> Some Custom"
  shows "resolveFeeOption cuc acct (FeeOptionLevel level) h =
     (let l = (case level of None \<Rightarrow> Medium | Some l \<Rightarrow> l) in
      case retryDced acct (GetFee (cushion l), \<lambda>h. getFee (rippleApi acct) h (cushion l)) h of
        (h', Inl e) \<Rightarrow> (h', Inl e)
      | (h', Inr fee) \<Rightarrow>
          (h', case toBaseDenominationString (cuc 6) fee of
                 Inl e \<Rightarrow> Inl e
               | Inr b \<Rightarrow> Inr \<lparr>targetFeeLevel = l, targetFeeRate = fee,
                               targetFeeRateType = Main, feeMain = fee, feeBase = b\<rparr>))"
proof (cases level)
  case None
  then show ?thesis
    by (simp add: resolveFeeOption_def await_def sync_def resolve_def Let_def
        toBaseDenomination_def DECIMAL_PLACES_def split: prod.splits sum.splits)
next
  case (Some l)
  with assms show ?thesis
    by (cases l)
       (simp_all add: resolveFeeOption_def await_def sync_def resolve_def Let_def
        toBaseDenomination_def DECIMAL_PLACES_def split: prod.splits sum.splits)
qed

lemma resolveFeeOption_level_events:
  assumes "level \<noteq> Some Custom"
  shows "\<exists>evs. fst (resolveFeeOption cuc acct (FeeOptionLevel level) h)
            = h @ Call (GetFee (cushion (case level of None \<Rightarrow> Medium | Some l \<Rightarrow> l))) # evs
          \<and> list_all (retry_event (GetFee (cushion (case level of None \<Rightarrow> Medium | Some l \<Rightarrow> l))))
               evs"
proof -
  let ?c = "cushion (case level of None \<Rightarrow> Medium | Some l \<Rightarrow> l)"
  let ?fn = "(GetFee ?c, \<lambda>h. getFee (rippleApi acct) h ?c)"
  from retryIfDisconnected_events [of ?fn "rippleApi acct" h] obtain evs where
    e: "fst (retryDced acct ?fn h) = h @ Call (GetFee ?c) # evs"
       "list_all (retry_event (GetFee ?c)) evs"
    by (auto simp: retryDced_def)
  have "fst (resolveFeeOption cuc acct (FeeOptionLevel level) h) = fst (retryDced acct ?fn h)"
    unfolding resolveFeeOption_level [OF assms]
    by (simp add: Let_def split: prod.splits sum.splits)
  with e show ?thesis by auto
qed

text \<open>
  C7. With a custom rate, the rate is copied into the denomination it is given in and the
  other denomination comes from the unit converters for 6 decimal places: a base rate gives
  \<open>feeBase = rate\<close> and \<open>feeMain = toMainDenomination(rate)\<close>, a main rate gives
  \<open>feeMain = rate\<close> and \<open>feeBase = toBaseDenomination(rate)\<close>; a conversion that throws makes
  the resolver throw, and any other rate type is an error. With a level (low, medium, high, or
  none given, which counts as medium) the cushion is 1, 1.2, 1.5 respectively; the first
  request goes to the client's \<open>getFee\<close> with that cushion, every request made is that one,
  and the fee the client returns is \<open>feeMain\<close>, converted to base units for \<open>feeBase\<close>.
\<close>

theorem resolveFeeOption_modes:
  "resolveFeeOption cuc acct (FeeOptionCustom rate Base) h =
     (h, case toMainDenominationString (cuc 6) rate of
           Inl e \<Rightarrow> Inl e
         | Inr m \<Rightarrow> Inr \<lparr>targetFeeLevel = Custom, targetFeeRate = rate,
                         targetFeeRateType = Base, feeMain = m, feeBase = rate\<rparr>)
   \<and> resolveFeeOption cuc acct (FeeOptionCustom rate Main) h =
     (h, case toBaseDenominationString (cuc 6) rate of
           Inl e \<Rightarrow> Inl e
         | Inr b \<Rightarrow> Inr \<lparr>targetFeeLevel = Custom, targetFeeRate = rate,
                         targetFeeRateType = Main, feeMain = rate, feeBase = b\<rparr>)
   \<and> resolveFeeOption cuc acct (FeeOptionCustom rate BasePerWeight) h =
     (h, Inl (Error UnsupportedFeeRateType))
   \<and> (\<forall>level \<in> {None, Some Low, Some Medium, Some High}.
        \<exists>l c. l = (case level of None \<Rightarrow> Medium | Some l \<Rightarrow> l)
          \<and> c = Some (if l = Low then 1 else if l = Medium then 12 / 10 else 15 / 10)
          \<and> resolveFeeOption cuc acct (FeeOptionLevel level) h =
              (case retryDced acct (GetFee c, \<lambda>h. getFee (rippleApi acct) h c) h of
                 (h', Inl e) \<Rightarrow> (h', Inl e)
               | (h', Inr fee) \<Rightarrow>
                   (h', case toBaseDenominationString (cuc 6) fee of
                          Inl e \<Rightarrow> Inl e
                        | Inr b \<Rightarrow> Inr \<lparr>targetFeeLevel = l, targetFeeRate = fee,
                                        targetFeeRateType = Main, feeMain = fee, feeBase = b\<rparr>))
          \<and> (\<exists>evs. fst (resolveFeeOption cuc acct (FeeOptionLevel level) h)
                      = h @ Call (GetFee c) # evs
                    \<and> list_all (retry_event (GetFee c)) evs))"
proof (intro conjI ballI)
  show "resolveFeeOption cuc acct (FeeOptionCustom rate Base) h =
     (h, case toMainDenominationString (cuc 6) rate of
           Inl e \<Rightarrow> Inl e
         | Inr m \<Rightarrow> Inr \<lparr>targetFeeLevel = Custom, targetFeeRate = rate,
                         targetFeeRateType = Base, feeMain = m, feeBase = rate\<rparr>)"
    by (simp add: resolveFeeOption_def await_def sync_def resolve_def
        toMainDenomination_def DECIMAL_PLACES_def split: sum.splits)
  show "resolveFeeOption cuc acct (FeeOptionCustom rate Main) h =
     (h, case toBaseDenominationString (cuc 6) rate of
           Inl e \<Rightarrow> Inl e
         | Inr b \<Rightarrow> Inr \<lparr>targetFeeLevel = Custom, targetFeeRate = rate,
                         targetFeeRateType = Main, feeMain = rate, feeBase = b\<rparr>)"
    by (simp add: resolveFeeOption_def await_def sync_def resolve_def
        toBaseDenomination_def DECIMAL_PLACES_def split: sum.splits)
  show "resolveFeeOption cuc acct (FeeOptionCustom rate BasePerWeight) h =
     (h, Inl (Error UnsupportedFeeRateType))"
    by (simp add: resolveFeeOption_def throw_def)
next
  fix level :: "FeeLevel option"
  assume lv: "level \<in> {None, Some Low, Some Medium, Some High}"
  then have nc: "level \<noteq> Some Custom" by auto
  let ?l = "case level of None \<Rightarrow> Medium | Some l \<Rightarrow> l"
  let ?c = "Some (if ?l = Low then 1 else if ?l = Medium then 12 / 10 else (15 / 10 :: rat))"
  from lv have c: "cushion ?l = ?c" by auto
  have "resolveFeeOption cuc acct (FeeOptionLevel level) h =
              (case retryDced acct (GetFee (cushion ?l),
                                    \<lambda>h. getFee (rippleApi acct) h (cushion ?l)) h of
                 (h', Inl e) \<Rightarrow> (h', Inl e)
               | (h', Inr fee) \<Rightarrow>
                   (h', case toBaseDenominationString (cuc 6) fee of
                          Inl e \<Rightarrow> Inl e
                        | Inr b \<Rightarrow> Inr \<lparr>targetFeeLevel = ?l, targetFeeRate = fee,
                                        targetFeeRateType = Main, feeMain = fee, feeBase = b\<rparr>))"
    using resolveFeeOption_level [OF nc, of cuc acct h] by (simp only: Let_def)
  then have "resolveFeeOption cuc acct (FeeOptionLevel level) h =
              (case retryDced acct (GetFee ?c, \<lambda>h. getFee (rippleApi acct) h ?c) h of
                 (h', Inl e) \<Rightarrow> (h', Inl e)
               | (h', Inr fee) \<Rightarrow>
                   (h', case toBaseDenominationString (cuc 6) fee of
                          Inl e \<Rightarrow> Inl e
                        | Inr b \<Rightarrow> Inr \<lparr>targetFeeLevel = ?l, targetFeeRate = fee,
                                        targetFeeRateType = Main, feeMain = fee, feeBase = b\<rparr>))"
    by (simp only: c)
  moreover have "\<exists>evs. fst (resolveFeeOption cuc acct (FeeOptionLevel level) h)
                      = h @ Call (GetFee ?c) # evs
                    \<and> list_all (retry_event (GetFee ?c)) evs"
    using resolveFeeOption_level_events [OF nc, of cuc acct h] by (simp only: c)
  ultimately show "\<exists>l c. l = (case level of None \<Rightarrow> Medium | Some l \<Rightarrow> l)
          \<and> c = Some (if l = Low then 1 else if l = Medium then 12 / 10 else 15 / 10)
          \<and> resolveFeeOption cuc acct (FeeOptionLevel level) h =
              (case retryDced acct (GetFee c, \<lambda>h. getFee (rippleApi acct) h c) h of
                 (h', Inl e) \<Rightarrow> (h', Inl e)
               | (h', Inr fee) \<Rightarrow>
                   (h', case toBaseDenominationString (cuc 6) fee of
                          Inl e \<Rightarrow> Inl e
                        | Inr b \<Rightarrow> Inr \<lparr>targetFeeLevel = l, targetFeeRate = fee,
                                        targetFeeRateType = Main, feeMain = fee, feeBase = b\<rparr>))
          \<and> (\<exists>evs. fst (resolveFeeOption cuc acct (FeeOptionLevel level) h)
                      = h @ Call (GetFee c) # evs
                    \<and> list_all (retry_event (GetFee c)) evs)"
    by blast
qed

theorem resolveFeeOption_modes_witness:
  "resolveFeeOption decimal_converters (test_account 100) (FeeOptionLevel (Some High)) [] =
     ([Call (GetFee (Some (15 / 10)))],
      Inr \<lparr>targetFeeLevel = High, targetFeeRate = Fin (18 / 1000000),
           targetFeeRateType = Main, feeMain = Fin (18 / 1000000), feeBase = Fin 18\<rparr>)
   \<and> resolveFeeOption decimal_converters (test_account 100) (FeeOptionCustom (Fin 12) Base) [] =
     ([], Inr \<lparr>targetFeeLevel = Custom, targetFeeRate = Fin 12,
               targetFeeRateType = Base, feeMain = Fin (12 / 1000000), feeBase = Fin 12\<rparr>)"
proof -
  have m: "Some High \<in> {None, Some Low, Some Medium, Some High}" by simp
  have r: "retryDced (test_account 100)
             (GetFee (Some (15 / 10)), \<lambda>h. getFee (rippleApi (test_account 100)) h (Some (15 / 10))) []
           = ([Call (GetFee (Some (15 / 10)))], Inr (Fin (18 / 1000000)))"
    by (simp add: retryDced_def retryIfDisconnected_def MAX_RETRIES_def
        numeral_3_eq_3 attemptFn_def test_account_def funded_api_def steady_api_def)
  note lev = resolveFeeOption_modes [of decimal_converters "test_account 100" "Fin 12" "[]",
      THEN conjunct2, THEN conjunct2, THEN conjunct2, THEN bspec, OF m]
  from lev
  have 1: "resolveFeeOption decimal_converters (test_account 100) (FeeOptionLevel (Some High)) [] =
              (case retryDced (test_account 100)
                      (GetFee (Some (15 / 10)), \<lambda>h. getFee (rippleApi (test_account 100)) h (Some (15 / 10))) [] of
                 (h', Inl e) \<Rightarrow> (h', Inl e)
               | (h', Inr fee) \<Rightarrow>
                   (h', case toBaseDenominationString (decimal_converters 6) fee of
                          Inl e \<Rightarrow> Inl e
                        | Inr b \<Rightarrow> Inr \<lparr>targetFeeLevel = High, targetFeeRate = fee,
                                        targetFeeRateType = Main, feeMain = fee, feeBase = b\<rparr>))"
    by simp
  from resolveFeeOption_modes [of decimal_converters "test_account 100" "Fin 12" "[]"]
  have 2: "resolveFeeOption decimal_converters (test_account 100) (FeeOptionCustom (Fin 12) Base) [] =
     ([], case toMainDenominationString (decimal_converters 6) (Fin 12) of
           Inl e \<Rightarrow> Inl e
         | Inr m \<Rightarrow> Inr \<lparr>targetFeeLevel = Custom, targetFeeRate = Fin 12,
                         targetFeeRateType = Base, feeMain = m, feeBase = Fin 12\<rparr>)"
    by blast
  show ?thesis
    unfolding 1 2 r by (simp add: decimal_converters_def)
qed

section \<open>Building transactions\<close>

lemma getBalance_address:
  "getBalance acct (Payport \<lparr>address = a, extraId = None\<rparr>) h =
     (if \<not> isValidAddress a then (h, Inl (Error (InvalidAddress a)))
      else case retryDced acct (GetBalances a, \<lambda>h. getBalances (rippleApi acct) h a) h of
             (h', Inl e) \<Rightarrow> (h', Inl e)
           | (h', Inr balances) \<Rightarrow>
               (h', Inr \<lparr>confirmedBalance = minus (xrpAmount balances) (Fin 20),
                         unconfirmedBalance = Fin 0,
                         sweepable = gt (xrpAmount balances) (Fin 0)\<rparr>))"
  by (simp add: getBalance_def await_def sync_def resolve_def MIN_BALANCE_def
      isSweepableAddressBalance_def split: prod.splits sum.splits)

lemma getBalance_no_prepare:
  "\<exists>evs. fst (getBalance acct arg h) = h @ evs \<and> \<not> list_ex is_prepare evs"
proof (cases "doResolvePayport acct arg")
  case (Inl e)
  then show ?thesis
    by (simp add: getBalance_def await_def sync_def)
next
  case (Inr p)
  show ?thesis
  proof (cases "extraId p")
    case (Some x)
    with Inr show ?thesis
      by (simp add: getBalance_def await_def sync_def throw_def)
  next
    case None
    let ?fn = "(GetBalances (address p), \<lambda>h. getBalances (rippleApi acct) h (address p))"
    from retryIfDisconnected_events [of ?fn "rippleApi acct" h] obtain evs where
      e: "fst (retryDced acct ?fn h) = h @ Call (GetBalances (address p)) # evs"
         "list_all (retry_event (GetBalances (address p))) evs"
      by (auto simp: retryDced_def)
    then have "list_all (retry_event (GetBalances (address p)))
                 (Call (GetBalances (address p)) # evs)" by simp
    then have n: "\<not> list_ex is_prepare (Call (GetBalances (address p)) # evs)"
      by (rule retry_event_not_prepare) simp
    have "fst (getBalance acct arg h) = fst (retryDced acct ?fn h)"
      using Inr None
      by (simp add: getBalance_def await_def sync_def resolve_def split: prod.splits sum.splits)
    with e n show ?thesis by metis
  qed
qed

lemma resolveFeeOption_no_prepare:
  "\<exists>evs. fst (resolveFeeOption cuc acct fo h) = h @ evs \<and> \<not> list_ex is_prepare evs"
proof (cases fo)
  case (FeeOptionCustom rate rt)
  then show ?thesis
    by (cases rt)
       (simp_all add: resolveFeeOption_def await_def sync_def resolve_def throw_def
         split: sum.splits)
next
  case (FeeOptionLevel level)
  show ?thesis
  proof (cases "level = Some Custom")
    case True
    with FeeOptionLevel show ?thesis
      by (simp add: resolveFeeOption_def throw_def)
  next
    case False
    let ?q = "GetFee (cushion (case level of None \<Rightarrow> Medium | Some l \<Rightarrow> l))"
    from resolveFeeOption_level_events [OF False, of cuc acct h] obtain evs where
      e: "fst (resolveFeeOption cuc acct (FeeOptionLevel level) h) = h @ Call ?q # evs"
         "list_all (retry_event ?q) evs" by blast
    then have "list_all (retry_event ?q) (Call ?q # evs)" by simp
    then have "\<not> list_ex is_prepare (Call ?q # evs)"
      by (rule retry_event_not_prepare) simp
    with e FeeOptionLevel show ?thesis by metis
  qed
qed

lemma resolvePayportBalance_bare:
  assumes "extraId fp = None" and "resolvePayportBalance acct fp options h = (h', Inr pb)"
  shows "\<exists>balances. isValidAddress (address fp)
           \<and> retryDced acct (GetBalances (address fp),
                              \<lambda>h. getBalances (rippleApi acct) h (address fp)) h
               = (h', Inr balances)
           \<and> pb = minus (xrpAmount balances) (Fin 20)"
proof -
  from assms(1) have fp: "\<lparr>address = address fp, extraId = None\<rparr> = fp" by simp
  have ga: "getBalance acct (Payport fp) h =
     (if \<not> isValidAddress (address fp) then (h, Inl (Error (InvalidAddress (address fp))))
      else case retryDced acct (GetBalances (address fp),
                                \<lambda>h. getBalances (rippleApi acct) h (address fp)) h of
             (h', Inl e) \<Rightarrow> (h', Inl e)
           | (h', Inr balances) \<Rightarrow>
               (h', Inr \<lparr>confirmedBalance = minus (xrpAmount balances) (Fin 20),
                         unconfirmedBalance = Fin 0,
                         sweepable = gt (xrpAmount balances) (Fin 0)\<rparr>))"
    using getBalance_address [of acct "address fp" h] by (simp only: fp)
  have "resolvePayportBalance acct fp options h =
          (case getBalance acct (Payport fp) h of
             (h', Inl e) \<Rightarrow> (h', Inl e)
           | (h', Inr b) \<Rightarrow> (h', Inr (confirmedBalance b)))"
    using assms(1)
    by (simp add: resolvePayportBalance_def await_def resolve_def split: prod.splits sum.splits)
  with assms(2) show ?thesis
    by (auto simp: ga split: if_splits prod.splits sum.splits)
qed

lemma resolvePayportBalance_extraId:
  assumes "extraId fp = Some x"
  shows "resolvePayportBalance acct fp options h =
           (h, case payportBalance options of
                 None \<Rightarrow> Inl (Error MissingPayportBalance)
               | Some pb \<Rightarrow> if isNaN pb then Inl (Error NaNPayportBalance) else Inr pb)"
  using assms
  by (simp add: resolvePayportBalance_def throw_def resolve_def split: option.splits)

lemma resolvePayportBalance_no_prepare:
  "\<exists>evs. fst (resolvePayportBalance acct fp options h) = h @ evs \<and> \<not> list_ex is_prepare evs"
proof (cases "extraId fp")
  case None
  from getBalance_no_prepare [of acct "Payport fp" h] obtain evs where
    e: "fst (getBalance acct (Payport fp) h) = h @ evs" "\<not> list_ex is_prepare evs" by blast
  have "fst (resolvePayportBalance acct fp options h) = fst (getBalance acct (Payport fp) h)"
    using None
    by (simp add: resolvePayportBalance_def await_def resolve_def split: prod.splits sum.splits)
  with e show ?thesis by metis
next
  case (Some x)
  then show ?thesis by (simp add: resolvePayportBalance_extraId)
qed

lemma resolveFromTo_result:
  assumes "resolveFromTo acct src dst h = (h1, Inr ft)"
  shows "h1 = h \<and> fromPayport ft = doGetPayport acct src
         \<and> fromAddress ft = address (doGetPayport acct src)
         \<and> fromExtraId ft = extraId (doGetPayport acct src)
         \<and> fromIndex ft = src"
  using assms
  by (auto simp: resolveFromTo_def await_def sync_def resolve_def Let_def split: sum.splits)

lemma resolveFromTo_history: "fst (resolveFromTo acct src dst h) = h"
  by (simp add: resolveFromTo_def await_def sync_def resolve_def Let_def split: sum.splits)

lemma doGetPayport_extraId: "(extraId (doGetPayport acct i) = None) = (i < 2)"
  by (auto simp: doGetPayport_def)

lemma doCreateTransaction_invalid_amount:
  assumes "isNaN amount \<or> lte amount (Fin 0)"
  shows "doCreateTransaction acct ft fee amount pb options h = (h, Inl (Error InvalidAmount))"
  using assms by (simp add: doCreateTransaction_def throw_def)

lemma doCreateTransaction_self:
  assumes "\<not> isNaN amount" and "\<not> lte amount (Fin 0)" and "fromAddress ft = toAddress ft"
  shows "doCreateTransaction acct ft fee amount pb options h = (h, Inl (Error SendToSelf))"
  using assms by (simp add: doCreateTransaction_def throw_def)

text \<open>The payment \<open>doCreateTransaction\<close> asks the ledger client to prepare.\<close>

lemma doCreateTransaction_checked:
  assumes "\<not> isNaN amount" and "\<not> lte amount (Fin 0)" and "fromAddress ft \<noteq> toAddress ft"
    and "isValidAddress (fromAddress ft)"
    and "retryDced acct (GetBalances (fromAddress ft),
                         \<lambda>h. getBalances (rippleApi acct) h (fromAddress ft)) h
           = (h', Inr balances)"
  shows "doCreateTransaction acct ft fee amount pb options h =
     (let adjusted = minus (xrpAmount balances) (Fin 20);
          total = plus amount (feeMain fee) in
      if lt adjusted (Fin 0) then (h', Inl (Error BelowMinBalance))
      else if lt (minus adjusted total) (Fin 0) then (h', Inl (Error InsufficientBalance))
      else if fromExtraId ft \<noteq> None \<and> gt total pb
        then (h', Inl (Error InsufficientPayportBalance))
      else
        (let spec =
           \<lparr>source = \<lparr>ps_address = fromAddress ft,
                      ps_tag = extraIdToTag (fromExtraId ft),
                      ps_amount = \<lparr>pa_currency = ''XRP'', pa_value = amount\<rparr>\<rparr>,
            destination = \<lparr>ps_address = toAddress ft,
                           ps_tag = extraIdToTag (toExtraId ft),
                           ps_amount = \<lparr>pa_currency = ''XRP'', pa_value = amount\<rparr>\<rparr>\<rparr>;
             instr = \<lparr>i_maxLedgerVersionOffset =
                        js_or (maxLedgerVersionOffset options)
                          (js_or (config_maxLedgerVersionOffset acct)
                             DEFAULT_MAX_LEDGER_VERSION_OFFSET),
                      i_sequence = sequence options\<rparr>
         in case retryDced acct
                   (PreparePayment (fromAddress ft) spec instr,
                    \<lambda>h. preparePayment (rippleApi acct) h (fromAddress ft) spec instr) h' of
              (h'', Inl e) \<Rightarrow> (h'', Inl e)
            | (h'', Inr preparedTx) \<Rightarrow>
                (h'', Inr \<lparr>u_id = None,
                           u_fromIndex = fromIndex ft,
                           u_fromAddress = fromAddress ft,
                           u_fromExtraId = fromExtraId ft,
                           u_toIndex = toIndex ft,
                           u_toAddress = toAddress ft,
                           u_toExtraId = toExtraId ft,
                           u_amount = amount,
                           u_targetFeeLevel = targetFeeLevel fee,
                           u_targetFeeRate = targetFeeRate fee,
                           u_targetFeeRateType = targetFeeRateType fee,
                           u_fee = feeMain fee,
                           u_status = Unsigned,
                           u_data = preparedTx\<rparr>)))"
  using assms
  by (simp add: doCreateTransaction_def getBalance_address await_def throw_def resolve_def
      Let_def split: prod.splits sum.splits)

lemma doCreateTransaction_success:
  assumes "doCreateTransaction acct ft fee amount pb options h = (h', Inr utx)"
  shows "u_amount utx = amount \<and> u_fee utx = feeMain fee"
proof -
  from assms have a: "\<not> isNaN amount" "\<not> lte amount (Fin 0)" "fromAddress ft \<noteq> toAddress ft"
    by (auto simp: doCreateTransaction_def throw_def split: if_splits)
  from assms a have v: "isValidAddress (fromAddress ft)"
    by (auto simp: doCreateTransaction_def getBalance_address await_def throw_def Let_def
        split: if_splits)
  obtain h1 r where r: "retryDced acct (GetBalances (fromAddress ft),
                         \<lambda>h. getBalances (rippleApi acct) h (fromAddress ft)) h = (h1, r)"
    by (cases "retryDced acct (GetBalances (fromAddress ft),
                         \<lambda>h. getBalances (rippleApi acct) h (fromAddress ft)) h")
  show ?thesis
  proof (cases r)
    case (Inl e)
    with assms a v r show ?thesis
      by (simp add: doCreateTransaction_def getBalance_address await_def Let_def)
  next
    case (Inr balances)
    with r have "retryDced acct (GetBalances (fromAddress ft),
                         \<lambda>h. getBalances (rippleApi acct) h (fromAddress ft)) h
                  = (h1, Inr balances)" by simp
    from doCreateTransaction_checked [OF a v this, of fee pb options] assms
    show ?thesis
      by (auto simp: Let_def split: if_splits prod.splits sum.splits)
  qed
qed

text \<open>
  C1 as the spec states it, "the amount must be finite", fails: the first rule rejects NaN
  and amounts \<open>\<le> 0\<close> only. An infinite amount passes it and is turned down two rules later,
  as an insufficient balance.
\<close>

theorem createTransaction_infinite_amount:
  "snd (createTransaction decimal_converters (test_account 100) 0 (Index 1) PosInf
          (test_options (FeeOptionLevel None) None) [])
     = Inl (Error InsufficientBalance)"
  by (simp add: createTransaction_def resolveFromTo_def resolveFeeOption_def
      resolvePayportBalance_def doCreateTransaction_def getBalance_def doGetPayport_def
      await_def sync_def resolve_def throw_def Let_def
      retryDced_def retryIfDisconnected_def MAX_RETRIES_def numeral_3_eq_3 attemptFn_def
      test_account_def test_options_def funded_api_def steady_api_def decimal_converters_def
      toBaseDenomination_def isValidAddress_test test_addresses_differ xrpAmount_def
      minus_def lte_def MIN_BALANCE_def)

text \<open>
  C1, amended. \<open>doCreateTransaction\<close> applies its rules in this order, each with its own
  error. (1) The amount must not be NaN and must be > 0, else invalid amount, before any
  request is made. Then source and destination address must differ. With the source
  address's balances fetched: (2) the XRP balance minus 20 must not be below 0, else the
  address is below the minimum balance; (3) that reserve-adjusted balance minus
  (amount + fee) must not be below 0, else insufficient balance; (4) if the source has an
  extraId, amount + fee must not exceed the payport balance passed in, else insufficient
  payport balance; otherwise the payment of that amount is sent to the client to prepare.
  In \<open>createTransaction\<close> the payport balance of a source with an extraId is the
  \<open>payportBalance\<close> option, and its absence is an error, raised once payports and fee are
  resolved: such a call never succeeds.
\<close>

theorem doCreateTransaction_validation:
  "(isNaN amount \<or> lte amount (Fin 0) \<longrightarrow>
      doCreateTransaction acct ft fee amount pb options h = (h, Inl (Error InvalidAmount)))
   \<and> (\<not> isNaN amount \<and> \<not> lte amount (Fin 0) \<and> fromAddress ft = toAddress ft \<longrightarrow>
      doCreateTransaction acct ft fee amount pb options h = (h, Inl (Error SendToSelf)))
   \<and> (\<not> isNaN amount \<and> \<not> lte amount (Fin 0) \<and> fromAddress ft \<noteq> toAddress ft
        \<and> isValidAddress (fromAddress ft)
        \<and> retryDced acct (GetBalances (fromAddress ft),
                           \<lambda>h. getBalances (rippleApi acct) h (fromAddress ft)) h
            = (h', Inr balances) \<longrightarrow>
      (lt (minus (xrpAmount balances) (Fin 20)) (Fin 0) \<longrightarrow>
         doCreateTransaction acct ft fee amount pb options h
           = (h', Inl (Error BelowMinBalance)))
      \<and> (\<not> lt (minus (xrpAmount balances) (Fin 20)) (Fin 0)
          \<and> lt (minus (minus (xrpAmount balances) (Fin 20)) (plus amount (feeMain fee))) (Fin 0) \<longrightarrow>
         doCreateTransaction acct ft fee amount pb options h
           = (h', Inl (Error InsufficientBalance)))
      \<and> (\<not> lt (minus (xrpAmount balances) (Fin 20)) (Fin 0)
          \<and> \<not> lt (minus (minus (xrpAmount balances) (Fin 20)) (plus amount (feeMain fee))) (Fin 0)
          \<and> fromExtraId ft \<noteq> None \<and> gt (plus amount (feeMain fee)) pb \<longrightarrow>
         doCreateTransaction acct ft fee amount pb options h
           = (h', Inl (Error InsufficientPayportBalance)))
      \<and> (\<not> lt (minus (xrpAmount balances) (Fin 20)) (Fin 0)
          \<and> \<not> lt (minus (minus (xrpAmount balances) (Fin 20)) (plus amount (feeMain fee))) (Fin 0)
          \<and> \<not> (fromExtraId ft \<noteq> None \<and> gt (plus amount (feeMain fee)) pb) \<longrightarrow>
         (\<exists>spec instr evs.
            fst (doCreateTransaction acct ft fee amount pb options h)
              = h' @ Call (PreparePayment (fromAddress ft) spec instr) # evs
            \<and> pa_value (ps_amount (source spec)) = amount
            \<and> pa_value (ps_amount (destination spec)) = amount)))
   \<and> (extraId fp = Some x \<and> payportBalance options = None \<longrightarrow>
        resolvePayportBalance acct fp options h = (h, Inl (Error MissingPayportBalance)))
   \<and> (2 \<le> src \<and> payportBalance options = None \<longrightarrow>
        (\<exists>h2 e. createTransaction cuc acct src dst amount options h = (h2, Inl e))
        \<and> (\<forall>h1 ft' h2 fee'.
              resolveFromTo acct src dst h = (h1, Inr ft')
              \<and> resolveFeeOption cuc acct (fee_option options) h1 = (h2, Inr fee') \<longrightarrow>
              createTransaction cuc acct src dst amount options h
                = (h2, Inl (Error MissingPayportBalance))))"
proof (intro conjI impI)
  assume "isNaN amount \<or> lte amount (Fin 0)"
  then show "doCreateTransaction acct ft fee amount pb options h = (h, Inl (Error InvalidAmount))"
    by (rule doCreateTransaction_invalid_amount)
next
  assume "\<not> isNaN amount \<and> \<not> lte amount (Fin 0) \<and> fromAddress ft = toAddress ft"
  then show "doCreateTransaction acct ft fee amount pb options h = (h, Inl (Error SendToSelf))"
    by (simp add: doCreateTransaction_self)
next
  assume a: "\<not> isNaN amount \<and> \<not> lte amount (Fin 0) \<and> fromAddress ft \<noteq> toAddress ft
        \<and> isValidAddress (fromAddress ft)
        \<and> retryDced acct (GetBalances (fromAddress ft),
                           \<lambda>h. getBalances (rippleApi acct) h (fromAddress ft)) h
            = (h', Inr balances)"
  then have c: "doCreateTransaction acct ft fee amount pb options h =
     (let adjusted = minus (xrpAmount balances) (Fin 20);
          total = plus amount (feeMain fee) in
      if lt adjusted (Fin 0) then (h', Inl (Error BelowMinBalance))
      else if lt (minus adjusted total) (Fin 0) then (h', Inl (Error InsufficientBalance))
      else if fromExtraId ft \<noteq> None \<and> gt total pb
        then (h', Inl (Error InsufficientPayportBalance))
      else
        (let spec =
           \<lparr>source = \<lparr>ps_address = fromAddress ft,
                      ps_tag = extraIdToTag (fromExtraId ft),
                      ps_amount = \<lparr>pa_currency = ''XRP'', pa_value = amount\<rparr>\<rparr>,
            destination = \<lparr>ps_address = toAddress ft,
                           ps_tag = extraIdToTag (toExtraId ft),
                           ps_amount = \<lparr>pa_currency = ''XRP'', pa_value = amount\<rparr>\<rparr>\<rparr>;
             instr = \<lparr>i_maxLedgerVersionOffset =
                        js_or (maxLedgerVersionOffset options)
                          (js_or (config_maxLedgerVersionOffset acct)
                             DEFAULT_MAX_LEDGER_VERSION_OFFSET),
                      i_sequence = sequence options\<rparr>
         in case retryDced acct
                   (PreparePayment (fromAddress ft) spec instr,
                    \<lambda>h. preparePayment (rippleApi acct) h (fromAddress ft) spec instr) h' of
              (h'', Inl e) \<Rightarrow> (h'', Inl e)
            | (h'', Inr preparedTx) \<Rightarrow>
                (h'', Inr \<lparr>u_id = None,
                           u_fromIndex = fromIndex ft,
                           u_fromAddress = fromAddress ft,
                           u_fromExtraId = fromExtraId ft,
                           u_toIndex = toIndex ft,
                           u_toAddress = toAddress ft,
                           u_toExtraId = toExtraId ft,
                           u_amount = amount,
                           u_targetFeeLevel = targetFeeLevel fee,
                           u_targetFeeRate = targetFeeRate fee,
                           u_targetFeeRateType = targetFeeRateType fee,
                           u_fee = feeMain fee,
                           u_status = Unsigned,
                           u_data = preparedTx\<rparr>)))"
    by (intro doCreateTransaction_checked) simp_all
  {
    assume "lt (minus (xrpAmount balances) (Fin 20)) (Fin 0)"
    then show "doCreateTransaction acct ft fee amount pb options h
           = (h', Inl (Error BelowMinBalance))"
      unfolding c by (simp add: Let_def)
  }
  {
    assume "\<not> lt (minus (xrpAmount balances) (Fin 20)) (Fin 0)
          \<and> lt (minus (minus (xrpAmount balances) (Fin 20)) (plus amount (feeMain fee))) (Fin 0)"
    then show "doCreateTransaction acct ft fee amount pb options h
           = (h', Inl (Error InsufficientBalance))"
      unfolding c by (simp add: Let_def)
  }
  {
    assume "\<not> lt (minus (xrpAmount balances) (Fin 20)) (Fin 0)
          \<and> \<not> lt (minus (minus (xrpAmount balances) (Fin 20)) (plus amount (feeMain fee))) (Fin 0)
          \<and> fromExtraId ft \<noteq> None \<and> gt (plus amount (feeMain fee)) pb"
    then show "doCreateTransaction acct ft fee amount pb options h
           = (h', Inl (Error InsufficientPayportBalance))"
      unfolding c by (simp add: Let_def)
  }
  {
    assume p: "\<not> lt (minus (xrpAmount balances) (Fin 20)) (Fin 0)
          \<and> \<not> lt (minus (minus (xrpAmount balances) (Fin 20)) (plus amount (feeMain fee))) (Fin 0)
          \<and> \<not> (fromExtraId ft \<noteq> None \<and> gt (plus amount (feeMain fee)) pb)"
    let ?spec = "\<lparr>source = \<lparr>ps_address = fromAddress ft,
                      ps_tag = extraIdToTag (fromExtraId ft),
                      ps_amount = \<lparr>pa_currency = ''XRP'', pa_value = amount\<rparr>\<rparr>,
            destination = \<lparr>ps_address = toAddress ft,
                           ps_tag = extraIdToTag (toExtraId ft),
                           ps_amount = \<lparr>pa_currency = ''XRP'', pa_value = amount\<rparr>\<rparr>\<rparr>"
    let ?instr = "\<lparr>i_maxLedgerVersionOffset =
                        js_or (maxLedgerVersionOffset options)
                          (js_or (config_maxLedgerVersionOffset acct)
                             DEFAULT_MAX_LEDGER_VERSION_OFFSET),
                      i_sequence = sequence options\<rparr>"
    let ?fn = "(PreparePayment (fromAddress ft) ?spec ?instr,
                    \<lambda>h. preparePayment (rippleApi acct) h (fromAddress ft) ?spec ?instr)"
    from retryIfDisconnected_events [of ?fn "rippleApi acct" h'] obtain evs where
      e: "fst (retryDced acct ?fn h')
            = h' @ Call (PreparePayment (fromAddress ft) ?spec ?instr) # evs"
      by (auto simp: retryDced_def)
    from p have q: "\<not> lt (minus (xrpAmount balances) (Fin 20)) (Fin 0)"
      "\<not> lt (minus (minus (xrpAmount balances) (Fin 20)) (plus amount (feeMain fee))) (Fin 0)"
      "\<not> (fromExtraId ft \<noteq> None \<and> gt (plus amount (feeMain fee)) pb)"
      by simp_all
    have "doCreateTransaction acct ft fee amount pb options h =
            (case retryDced acct ?fn h' of
               (h'', Inl e) \<Rightarrow> (h'', Inl e)
             | (h'', Inr preparedTx) \<Rightarrow>
                (h'', Inr \<lparr>u_id = None,
                           u_fromIndex = fromIndex ft,
                           u_fromAddress = fromAddress ft,
                           u_fromExtraId = fromExtraId ft,
                           u_toIndex = toIndex ft,
                           u_toAddress = toAddress ft,
                           u_toExtraId = toExtraId ft,
                           u_amount = amount,
                           u_targetFeeLevel = targetFeeLevel fee,
                           u_targetFeeRate = targetFeeRate fee,
                           u_targetFeeRateType = targetFeeRateType fee,
                           u_fee = feeMain fee,
                           u_status = Unsigned,
                           u_data = preparedTx\<rparr>))"
      unfolding c Let_def by (simp only: q if_False)
    then have "fst (doCreateTransaction acct ft fee amount pb options h)
                 = fst (retryDced acct ?fn h')"
      by (simp split: prod.splits sum.splits)
    with e have "fst (doCreateTransaction acct ft fee amount pb options h)
              = h' @ Call (PreparePayment (fromAddress ft) ?spec ?instr) # evs
            \<and> pa_value (ps_amount (source ?spec)) = amount
            \<and> pa_value (ps_amount (destination ?spec)) = amount" by simp
    then show "\<exists>spec instr evs.
            fst (doCreateTransaction acct ft fee amount pb options h)
              = h' @ Call (PreparePayment (fromAddress ft) spec instr) # evs
            \<and> pa_value (ps_amount (source spec)) = amount
            \<and> pa_value (ps_amount (destination spec)) = amount"
      by blast
  }
next
  assume "extraId fp = Some x \<and> payportBalance options = None"
  then show "resolvePayportBalance acct fp options h = (h, Inl (Error MissingPayportBalance))"
    by (simp add: resolvePayportBalance_extraId)
next
  assume a: "2 \<le> src \<and> payportBalance options = None"
  have miss: "\<And>h1 ft' h2 fee'.
      resolveFromTo acct src dst h = (h1, Inr ft') \<Longrightarrow>
      resolveFeeOption cuc acct (fee_option options) h1 = (h2, Inr fee') \<Longrightarrow>
      createTransaction cuc acct src dst amount options h
        = (h2, Inl (Error MissingPayportBalance))"
  proof -
    fix h1 ft' h2 fee'
    assume r: "resolveFromTo acct src dst h = (h1, Inr ft')"
      and f: "resolveFeeOption cuc acct (fee_option options) h1 = (h2, Inr fee')"
    from resolveFromTo_result [OF r] have fp: "fromPayport ft' = doGetPayport acct src" by simp
    from a have "extraId (doGetPayport acct src) \<noteq> None"
      by (simp add: doGetPayport_extraId)
    then obtain x where "extraId (fromPayport ft') = Some x" using fp by auto
    with a have "resolvePayportBalance acct (fromPayport ft') options h2
                   = (h2, Inl (Error MissingPayportBalance))"
      by (simp add: resolvePayportBalance_extraId)
    with r f show "createTransaction cuc acct src dst amount options h
        = (h2, Inl (Error MissingPayportBalance))"
      by (simp add: createTransaction_def await_def)
  qed
  show "\<forall>h1 ft' h2 fee'.
              resolveFromTo acct src dst h = (h1, Inr ft')
              \<and> resolveFeeOption cuc acct (fee_option options) h1 = (h2, Inr fee') \<longrightarrow>
              createTransaction cuc acct src dst amount options h
                = (h2, Inl (Error MissingPayportBalance))"
    using miss by blast
  show "\<exists>h2 e. createTransaction cuc acct src dst amount options h = (h2, Inl e)"
  proof (cases "resolveFromTo acct src dst h")
    case (Pair h1 r1)
    show ?thesis
    proof (cases r1)
      case (Inl e)
      with Pair show ?thesis by (simp add: createTransaction_def await_def)
    next
      case (Inr ft')
      note r = Pair [unfolded Inr]
      show ?thesis
      proof (cases "resolveFeeOption cuc acct (fee_option options) h1")
        case (Pair h2 r2)
        show ?thesis
        proof (cases r2)
          case (Inl e)
          with Pair r show ?thesis by (simp add: createTransaction_def await_def)
        next
          case (Inr fee')
          with Pair have "resolveFeeOption cuc acct (fee_option options) h1 = (h2, Inr fee')"
            by simp
          from miss [OF r this] show ?thesis by blast
        qed
      qed
    qed
  qed
qed

theorem doCreateTransaction_validation_witness:
  "doCreateTransaction (test_account 100) (test_fromTo None) test_fee (Fin 0) (Fin 80)
     (test_options (FeeOptionLevel None) None) []
     = ([], Inl (Error InvalidAmount))
   \<and> doCreateTransaction (test_account 5) (test_fromTo None) test_fee (Fin 1) (Fin (- 15))
       (test_options (FeeOptionLevel None) None) []
     = ([Call (GetBalances deposit_address)], Inl (Error BelowMinBalance))
   \<and> doCreateTransaction (test_account 100) (test_fromTo None) test_fee (Fin 80) (Fin 80)
       (test_options (FeeOptionLevel None) None) []
     = ([Call (GetBalances deposit_address)], Inl (Error InsufficientBalance))
   \<and> doCreateTransaction (test_account 100) (test_fromTo (Some ''7'')) test_fee (Fin 10) (Fin 1)
       (test_options (FeeOptionLevel None) (Some (Fin 1))) []
     = ([Call (GetBalances deposit_address)], Inl (Error InsufficientPayportBalance))
   \<and> createTransaction decimal_converters (test_account 100) 7 (Index 0) (Fin 1)
       (test_options (FeeOptionLevel None) None) []
     = ([Call (GetFee (Some (12 / 10)))], Inl (Error MissingPayportBalance))"
proof -
  let ?o = "test_options (FeeOptionLevel None) None"
  let ?o1 = "test_options (FeeOptionLevel None) (Some (Fin 1))"
  have b: "\<And>x ex. fromAddress (test_fromTo ex) \<noteq> toAddress (test_fromTo ex)
      \<and> isValidAddress (fromAddress (test_fromTo ex))
      \<and> retryDced (test_account x)
           (GetBalances (fromAddress (test_fromTo ex)),
            \<lambda>h. getBalances (rippleApi (test_account x)) h (fromAddress (test_fromTo ex))) []
         = ([Call (GetBalances deposit_address)], Inr [\<lparr>currency = ''XRP'', value = Some (Fin x)\<rparr>])"
    using test_addresses_differ
    by (auto simp: test_fromTo_def isValidAddress_test retryDced_def retryIfDisconnected_def
        MAX_RETRIES_def numeral_3_eq_3 attemptFn_def test_account_def funded_api_def
        steady_api_def)
  have x: "\<And>x. xrpAmount [\<lparr>currency = ''XRP'', value = Some (Fin x)\<rparr>] = Fin x"
    by (simp add: xrpAmount_def)
  have 1: "doCreateTransaction (test_account 100) (test_fromTo None) test_fee (Fin 0) (Fin 80) ?o []
             = ([], Inl (Error InvalidAmount))"
    using doCreateTransaction_validation
      [where amount = "Fin 0" and acct = "test_account 100" and ft = "test_fromTo None"
         and fee = test_fee and pb = "Fin 80" and options = ?o and h = "[]"]
    by (simp add: lte_def)
  have 2: "doCreateTransaction (test_account 5) (test_fromTo None) test_fee (Fin 1) (Fin (- 15)) ?o []
             = ([Call (GetBalances deposit_address)], Inl (Error BelowMinBalance))"
    using doCreateTransaction_validation
      [where amount = "Fin 1" and acct = "test_account 5" and ft = "test_fromTo None"
         and fee = test_fee and pb = "Fin (- 15)" and options = ?o and h = "[]"
         and h' = "[Call (GetBalances deposit_address)]"
         and balances = "[\<lparr>currency = ''XRP'', value = Some (Fin 5)\<rparr>]"]
      b [of None 5]
    by (simp add: lte_def x minus_def)
  have 3: "doCreateTransaction (test_account 100) (test_fromTo None) test_fee (Fin 80) (Fin 80) ?o []
             = ([Call (GetBalances deposit_address)], Inl (Error InsufficientBalance))"
    using doCreateTransaction_validation
      [where amount = "Fin 80" and acct = "test_account 100" and ft = "test_fromTo None"
         and fee = test_fee and pb = "Fin 80" and options = ?o and h = "[]"
         and h' = "[Call (GetBalances deposit_address)]"
         and balances = "[\<lparr>currency = ''XRP'', value = Some (Fin 100)\<rparr>]"]
      b [of None 100]
    by (simp add: lte_def x minus_def test_fee_def)
  have 4: "doCreateTransaction (test_account 100) (test_fromTo (Some ''7'')) test_fee (Fin 10)
             (Fin 1) ?o1 []
             = ([Call (GetBalances deposit_address)], Inl (Error InsufficientPayportBalance))"
    using doCreateTransaction_validation
      [where amount = "Fin 10" and acct = "test_account 100" and ft = "test_fromTo (Some ''7'')"
         and fee = test_fee and pb = "Fin 1" and options = ?o1 and h = "[]"
         and h' = "[Call (GetBalances deposit_address)]"
         and balances = "[\<lparr>currency = ''XRP'', value = Some (Fin 100)\<rparr>]"]
      b [of "Some ''7''" 100]
    by (simp add: lte_def x minus_def gt_def test_fee_def) (simp add: test_fromTo_def)
  have r: "resolveFromTo (test_account 100) 7 (Index 0) [] =
             ([], Inr \<lparr>fromAddress = deposit_address, fromIndex = 7, fromExtraId = Some (js_String 7),
                  fromPayport = \<lparr>address = deposit_address, extraId = Some (js_String 7)\<rparr>,
                  toAddress = hot_address, toIndex = Some 0, toExtraId = None,
                  toPayport = \<lparr>address = hot_address, extraId = None\<rparr>\<rparr>)
      \<and> resolveFeeOption decimal_converters (test_account 100) (fee_option ?o) [] =
             ([Call (GetFee (Some (12 / 10)))],
              Inr \<lparr>targetFeeLevel = Medium, targetFeeRate = Fin (12 / 10 * 12 / 1000000),
                   targetFeeRateType = Main, feeMain = Fin (12 / 10 * 12 / 1000000),
                   feeBase = Fin (10 ^ 6 * (12 / 10 * 12 / 1000000))\<rparr>)"
    by (simp add: resolveFromTo_def resolveFeeOption_def doGetPayport_def
        await_def sync_def resolve_def Let_def retryDced_def retryIfDisconnected_def
        MAX_RETRIES_def numeral_3_eq_3 attemptFn_def test_account_def test_options_def
        funded_api_def steady_api_def decimal_converters_def toBaseDenomination_def
        DECIMAL_PLACES_def)
  have 5: "createTransaction decimal_converters (test_account 100) 7 (Index 0) (Fin 1) ?o []
             = ([Call (GetFee (Some (12 / 10)))], Inl (Error MissingPayportBalance))"
    using doCreateTransaction_validation
      [where src = 7 and options = ?o and cuc = decimal_converters
         and acct = "test_account 100" and dst = "Index 0" and amount = "Fin 1" and h = "[]"]
      r
    by (simp add: test_options_def)
  from 1 2 3 4 5 show ?thesis by simp
qed

section \<open>Sweeping\<close>

lemma lt_minus_negative:
  assumes "lt a b"
  shows "lt (minus a b) (Fin 0)"
  using assms by (cases a; cases b) (simp_all add: minus_def)

text \<open>
  C2. A sweep that succeeds carries the amount \<open>payportBalance - fee\<close>, where the fee is the
  resolved \<open>feeMain\<close> and the payport balance is, for a source without extraId (index 0 or
  1), the XRP balance the ledger client reports minus 20, and for a source with an extraId
  (index from 2 on) the caller's \<open>payportBalance\<close> option. Whenever the resolved payport
  balance is less than the fee, the call fails with the insufficient-balance error of the
  sweep, and nothing it has sent to the ledger client is a \<open>preparePayment\<close>.
\<close>

theorem createSweepTransaction_amount:
  "(\<forall>h' utx. createSweepTransaction cuc acct src dst options h = (h', Inr utx) \<longrightarrow>
      (\<exists>ft h2 fee h3 pb.
         resolveFromTo acct src dst h = (h, Inr ft)
         \<and> resolveFeeOption cuc acct (fee_option options) h = (h2, Inr fee)
         \<and> resolvePayportBalance acct (fromPayport ft) options h2 = (h3, Inr pb)
         \<and> u_amount utx = minus pb (feeMain fee)
         \<and> u_fee utx = feeMain fee
         \<and> (src < 2 \<longrightarrow>
              (\<exists>balances.
                 retryDced acct (GetBalances (fromAddress ft),
                                 \<lambda>h. getBalances (rippleApi acct) h (fromAddress ft)) h2
                   = (h3, Inr balances)
                 \<and> pb = minus (xrpAmount balances) (Fin 20)))
         \<and> (2 \<le> src \<longrightarrow> payportBalance options = Some pb)))
   \<and> (\<forall>ft h2 fee h3 pb.
        resolveFromTo acct src dst h = (h, Inr ft)
        \<and> resolveFeeOption cuc acct (fee_option options) h = (h2, Inr fee)
        \<and> resolvePayportBalance acct (fromPayport ft) options h2 = (h3, Inr pb)
        \<and> lt pb (feeMain fee) \<longrightarrow>
        createSweepTransaction cuc acct src dst options h
          = (h3, Inl (Error InsufficientSweepBalance))
        \<and> (\<exists>evs. h3 = h @ evs \<and> \<not> list_ex is_prepare evs))"
proof (intro conjI allI impI)
  fix h' utx
  assume s: "createSweepTransaction cuc acct src dst options h = (h', Inr utx)"
  obtain h1 r1 where r1: "resolveFromTo acct src dst h = (h1, r1)"
    by (cases "resolveFromTo acct src dst h")
  from resolveFromTo_history [of acct src dst h] r1 have h1: "h1 = h" by simp
  from s r1 obtain ft where ft: "r1 = Inr ft"
    by (cases r1) (auto simp: createSweepTransaction_def await_def)
  obtain h2 r2 where r2: "resolveFeeOption cuc acct (fee_option options) h = (h2, r2)"
    by (cases "resolveFeeOption cuc acct (fee_option options) h")
  from s r1 ft h1 r2 obtain fee where fee: "r2 = Inr fee"
    by (cases r2) (auto simp: createSweepTransaction_def await_def)
  obtain h3 r3 where r3: "resolvePayportBalance acct (fromPayport ft) options h2 = (h3, r3)"
    by (cases "resolvePayportBalance acct (fromPayport ft) options h2")
  from s r1 ft h1 r2 fee r3 obtain pb where pb: "r3 = Inr pb"
    by (cases r3) (auto simp: createSweepTransaction_def await_def)
  from s r1 ft h1 r2 fee r3 pb
  have d: "doCreateTransaction acct ft fee (minus pb (feeMain fee)) pb options h3 = (h', Inr utx)"
    by (auto simp: createSweepTransaction_def await_def throw_def Let_def split: if_splits)
  note am = doCreateTransaction_success [OF d]
  from r1 ft h1 have rr: "resolveFromTo acct src dst h = (h, Inr ft)" by simp
  note res = resolveFromTo_result [OF rr]
  have bare: "src < 2 \<longrightarrow>
              (\<exists>balances.
                 retryDced acct (GetBalances (fromAddress ft),
                                 \<lambda>h. getBalances (rippleApi acct) h (fromAddress ft)) h2
                   = (h3, Inr balances)
                 \<and> pb = minus (xrpAmount balances) (Fin 20))"
  proof
    assume "src < 2"
    then have n: "extraId (fromPayport ft) = None"
      using res by (simp add: doGetPayport_extraId)
    from r3 pb have "resolvePayportBalance acct (fromPayport ft) options h2 = (h3, Inr pb)"
      by simp
    from resolvePayportBalance_bare [OF n this] res
    show "\<exists>balances.
                 retryDced acct (GetBalances (fromAddress ft),
                                 \<lambda>h. getBalances (rippleApi acct) h (fromAddress ft)) h2
                   = (h3, Inr balances)
                 \<and> pb = minus (xrpAmount balances) (Fin 20)"
      by auto
  qed
  have extra: "2 \<le> src \<longrightarrow> payportBalance options = Some pb"
  proof
    assume "2 \<le> src"
    then have "extraId (doGetPayport acct src) \<noteq> None"
      by (simp add: doGetPayport_extraId)
    then obtain x where "extraId (fromPayport ft) = Some x" using res by auto
    from resolvePayportBalance_extraId [OF this, of acct options h2] r3 pb
    show "payportBalance options = Some pb"
      by (auto split: option.splits if_splits)
  qed
  from rr r2 fee r3 pb am bare extra
  show "\<exists>ft h2 fee h3 pb.
         resolveFromTo acct src dst h = (h, Inr ft)
         \<and> resolveFeeOption cuc acct (fee_option options) h = (h2, Inr fee)
         \<and> resolvePayportBalance acct (fromPayport ft) options h2 = (h3, Inr pb)
         \<and> u_amount utx = minus pb (feeMain fee)
         \<and> u_fee utx = feeMain fee
         \<and> (src < 2 \<longrightarrow>
              (\<exists>balances.
                 retryDced acct (GetBalances (fromAddress ft),
                                 \<lambda>h. getBalances (rippleApi acct) h (fromAddress ft)) h2
                   = (h3, Inr balances)
                 \<and> pb = minus (xrpAmount balances) (Fin 20)))
         \<and> (2 \<le> src \<longrightarrow> payportBalance options = Some pb)"
    by blast
next
  fix ft h2 fee h3 pb
  assume a: "resolveFromTo acct src dst h = (h, Inr ft)
        \<and> resolveFeeOption cuc acct (fee_option options) h = (h2, Inr fee)
        \<and> resolvePayportBalance acct (fromPayport ft) options h2 = (h3, Inr pb)
        \<and> lt pb (feeMain fee)"
  then have "lt (minus pb (feeMain fee)) (Fin 0)"
    by (simp add: lt_minus_negative)
  with a show "createSweepTransaction cuc acct src dst options h
          = (h3, Inl (Error InsufficientSweepBalance))"
    by (simp add: createSweepTransaction_def await_def throw_def Let_def)
  from resolveFeeOption_no_prepare [of cuc acct "fee_option options" h] a
  obtain evs1 where e1: "h2 = h @ evs1" "\<not> list_ex is_prepare evs1" by auto
  from resolvePayportBalance_no_prepare [of acct "fromPayport ft" options h2] a
  obtain evs2 where e2: "h3 = h2 @ evs2" "\<not> list_ex is_prepare evs2" by auto
  from e1 e2 have "h3 = h @ (evs1 @ evs2) \<and> \<not> list_ex is_prepare (evs1 @ evs2)"
    by (auto simp: list_ex_iff)
  then show "\<exists>evs. h3 = h @ evs \<and> \<not> list_ex is_prepare evs" by blast
qed

theorem createSweepTransaction_amount_witness:
  "(\<exists>h' utx. createSweepTransaction decimal_converters (test_account 100) 1 (Index 0)
                 (test_options (FeeOptionLevel None) None) [] = (h', Inr utx)
              \<and> u_amount utx = minus (Fin 80) (Fin (144 / 10000000))
              \<and> u_fee utx = Fin (144 / 10000000))
   \<and> createSweepTransaction decimal_converters (test_account 20) 1 (Index 0)
        (test_options (FeeOptionLevel None) None) []
      = ([Call (GetFee (Some (12 / 10))), Call (GetBalances deposit_address)],
         Inl (Error InsufficientSweepBalance))"
proof -
  let ?o = "test_options (FeeOptionLevel None) None"
  let ?ft = "\<lparr>fromAddress = deposit_address, fromIndex = 1, fromExtraId = None,
                  fromPayport = \<lparr>address = deposit_address, extraId = None\<rparr>,
                  toAddress = hot_address, toIndex = Some 0, toExtraId = None,
                  toPayport = \<lparr>address = hot_address, extraId = None\<rparr>\<rparr>"
  let ?fee = "\<lparr>targetFeeLevel = Medium, targetFeeRate = Fin (144 / 10000000),
                   targetFeeRateType = Main, feeMain = Fin (144 / 10000000),
                   feeBase = Fin (144 / 10)\<rparr>"
  have r: "\<And>x. resolveFromTo (test_account x) 1 (Index 0) [] = ([], Inr ?ft)"
    by (simp add: resolveFromTo_def doGetPayport_def await_def sync_def resolve_def Let_def
        test_account_def)
  have f: "\<And>x. resolveFeeOption decimal_converters (test_account x) (fee_option ?o) [] =
             ([Call (GetFee (Some (12 / 10)))], Inr ?fee)"
    by (simp add: resolveFeeOption_def await_def sync_def resolve_def Let_def retryDced_def
        retryIfDisconnected_def MAX_RETRIES_def numeral_3_eq_3 attemptFn_def test_account_def
        test_options_def funded_api_def steady_api_def decimal_converters_def
        toBaseDenomination_def DECIMAL_PLACES_def)
  have b: "\<And>x. resolvePayportBalance (test_account x) (fromPayport ?ft) ?o
                  [Call (GetFee (Some (12 / 10)))]
             = ([Call (GetFee (Some (12 / 10))), Call (GetBalances deposit_address)],
                Inr (Fin (x - 20)))"
    by (simp add: resolvePayportBalance_def getBalance_def await_def sync_def resolve_def
        isValidAddress_test retryDced_def retryIfDisconnected_def MAX_RETRIES_def
        numeral_3_eq_3 attemptFn_def test_account_def funded_api_def steady_api_def
        xrpAmount_def minus_def MIN_BALANCE_def)
  have b100: "resolvePayportBalance (test_account 100) (fromPayport ?ft) ?o
                  [Call (GetFee (Some (12 / 10)))]
             = ([Call (GetFee (Some (12 / 10))), Call (GetBalances deposit_address)], Inr (Fin 80))"
    using b [of 100] by simp
  have nl: "\<not> lt (minus (Fin 80) (feeMain ?fee)) (Fin 0)"
    by (simp add: minus_def)
  have c: "createSweepTransaction decimal_converters (test_account 100) 1 (Index 0) ?o []
           = doCreateTransaction (test_account 100) ?ft ?fee (minus (Fin 80) (feeMain ?fee))
               (Fin 80) ?o [Call (GetFee (Some (12 / 10))), Call (GetBalances deposit_address)]"
    by (simp only: createSweepTransaction_def await_def r f b100 prod.case sum.case Let_def
        nl if_False)
  have "\<exists>h' utx. doCreateTransaction (test_account 100) ?ft ?fee (minus (Fin 80) (feeMain ?fee))
               (Fin 80) ?o [Call (GetFee (Some (12 / 10))), Call (GetBalances deposit_address)]
                    = (h', Inr utx)"
    by (simp add: await_def minus_def throw_def
        doCreateTransaction_def lte_def test_addresses_differ [symmetric] getBalance_def
        sync_def resolve_def isValidAddress_test retryDced_def retryIfDisconnected_def
        MAX_RETRIES_def numeral_3_eq_3 attemptFn_def test_account_def funded_api_def
        steady_api_def xrpAmount_def MIN_BALANCE_def Let_def)
  with c have "\<exists>h' utx. createSweepTransaction decimal_converters (test_account 100) 1 (Index 0)
                    ?o [] = (h', Inr utx)"
    by simp
  then obtain h' utx where
    s: "createSweepTransaction decimal_converters (test_account 100) 1 (Index 0) ?o []
          = (h', Inr utx)" by blast
  from createSweepTransaction_amount
         [of decimal_converters "test_account 100" 1 "Index 0" ?o "[]",
          THEN conjunct1, rule_format, OF s]
  obtain ft h2 fee h3 pb where
    t: "resolveFromTo (test_account 100) 1 (Index 0) [] = ([], Inr ft)"
       "resolveFeeOption decimal_converters (test_account 100) (fee_option ?o) [] = (h2, Inr fee)"
       "resolvePayportBalance (test_account 100) (fromPayport ft) ?o h2 = (h3, Inr pb)"
       "u_amount utx = minus pb (feeMain fee)" "u_fee utx = feeMain fee"
    by blast
  from t(1) r [of 100] have ft: "ft = ?ft" by simp
  from t(2) f [of 100] have fee: "h2 = [Call (GetFee (Some (12 / 10)))]" "fee = ?fee" by simp_all
  from t(3) b [of 100] ft fee have pb: "pb = Fin 80" by simp
  from t(4,5) fee pb have
    "u_amount utx = minus (Fin 80) (Fin (144 / 10000000)) \<and> u_fee utx = Fin (144 / 10000000)"
    by simp
  with s have 1: "\<exists>h' utx. createSweepTransaction decimal_converters (test_account 100) 1 (Index 0)
                 ?o [] = (h', Inr utx)
              \<and> u_amount utx = minus (Fin 80) (Fin (144 / 10000000))
              \<and> u_fee utx = Fin (144 / 10000000)"
    by blast
  have "resolveFromTo (test_account 20) 1 (Index 0) [] = ([], Inr ?ft)
        \<and> resolveFeeOption decimal_converters (test_account 20) (fee_option ?o) []
            = ([Call (GetFee (Some (12 / 10)))], Inr ?fee)
        \<and> resolvePayportBalance (test_account 20) (fromPayport ?ft) ?o [Call (GetFee (Some (12 / 10)))]
            = ([Call (GetFee (Some (12 / 10))), Call (GetBalances deposit_address)], Inr (Fin 0))
        \<and> lt (Fin 0) (feeMain ?fee)"
    using r [of 20] f [of 20] b [of 20] by simp
  from createSweepTransaction_amount
         [of decimal_converters "test_account 20" 1 "Index 0" ?o "[]",
          THEN conjunct2, rule_format, OF this]
  have 2: "createSweepTransaction decimal_converters (test_account 20) 1 (Index 0) ?o []
      = ([Call (GetFee (Some (12 / 10))), Call (GetBalances deposit_address)],
         Inl (Error InsufficientSweepBalance))"
    by blast
  from 1 2 show ?thesis by blast
qed

section \<open>Zero-padded decimal numerals and their order\<close>

lemma length_js_String_le:
  "0 < k \<Longrightarrow> n < 10 ^ k \<Longrightarrow> length (js_String n) \<le> k"
proof (induction n arbitrary: k rule: js_String.induct)
  case (1 n)
  show ?case
  proof (cases "n < 10")
    case True
    with 1(2) show ?thesis by (subst js_String.simps) simp
  next
    case False
    obtain j where k: "k = Suc j" using 1(2) by (cases k) auto
    have j: "0 < j"
    proof (rule ccontr)
      assume "\<not> 0 < j"
      with k 1(3) False show False by simp
    qed
    from 1(3) k have "n div 10 < 10 ^ j"
      by (simp add: less_mult_imp_div_less mult.commute)
    from 1(1) [OF False j this] False k show ?thesis
      by (subst js_String.simps) simp
  qed
qed

lemma length_padLeft:
  "length x \<le> n \<Longrightarrow> length (padLeft x n v) = n"
  by (simp add: padLeft_replicate)

lemma decimal_value_foldl:
  "foldl (\<lambda>acc c. 10 * acc + digit_val c) a s = a * 10 ^ length s + decimal_value s"
proof (induction s arbitrary: a)
  case Nil
  show ?case by (simp add: decimal_value_def)
next
  case (Cons c s)
  have "foldl (\<lambda>acc c. 10 * acc + digit_val c) a (c # s)
        = (10 * a + digit_val c) * 10 ^ length s + decimal_value s"
    using Cons [of "10 * a + digit_val c"] by simp
  moreover have "decimal_value (c # s) = digit_val c * 10 ^ length s + decimal_value s"
    using Cons [of "digit_val c"] by (simp add: decimal_value_def)
  ultimately show ?case by (simp add: algebra_simps)
qed

lemma decimal_value_Cons:
  "decimal_value (c # s) = digit_val c * 10 ^ length s + decimal_value s"
  using decimal_value_foldl [of "digit_val c" s] by (simp add: decimal_value_def)

lemma decimal_value_zeros:
  "decimal_value (replicate j (CHR ''0'') @ s) = decimal_value s"
proof (induction j)
  case 0
  show ?case by simp
next
  case (Suc j)
  then show ?case by (simp add: decimal_value_Cons digit_val_def)
qed

lemma isDigit_code:
  assumes "isDigit c"
  shows "of_char c = 48 + digit_val c \<and> digit_val c \<le> 9"
  using assms by (auto simp: isDigit_def digit_val_def)

lemma digit_less:
  assumes "isDigit c" and "isDigit d"
  shows "(c < d) = (digit_val c < digit_val d)"
  using isDigit_code [OF assms(1)] isDigit_code [OF assms(2)]
  by (simp add: less_char_def)

lemma digit_eq:
  assumes "isDigit c" and "isDigit d"
  shows "(c = d) = (digit_val c = digit_val d)"
proof -
  have "(c = d) = ((of_char c :: nat) = of_char d)" by simp
  with isDigit_code [OF assms(1)] isDigit_code [OF assms(2)] show ?thesis by simp
qed

lemma decimal_value_bound:
  "list_all isDigit s \<Longrightarrow> decimal_value s < 10 ^ length s"
proof (induction s)
  case Nil
  show ?case by (simp add: decimal_value_def)
next
  case (Cons c s)
  then have v: "decimal_value s < 10 ^ length s" and c: "digit_val c \<le> 9"
    by (simp_all add: isDigit_code)
  from c have "digit_val c * 10 ^ length s \<le> 9 * 10 ^ length s"
    by (rule mult_le_mono1)
  with v have "digit_val c * 10 ^ length s + decimal_value s < 9 * 10 ^ length s + 10 ^ length s"
    by linarith
  then show ?case by (simp add: decimal_value_Cons)
qed

lemma place_value_less:
  fixes N :: nat
  assumes "x < N" and "y < N"
  shows "(c * N + x < d * N + y) = (c < d \<or> c = d \<and> x < y)"
proof (cases "c < d")
  case True
  then have "Suc c * N \<le> d * N" by (intro mult_le_mono1) simp
  with assms(1) have "c * N + x < d * N" by simp
  with True show ?thesis by simp
next
  case False
  show ?thesis
  proof (cases "c = d")
    case True
    then show ?thesis by simp
  next
    case ne: False
    with False have "d < c" by simp
    then have "Suc d * N \<le> c * N" by (intro mult_le_mono1) simp
    with assms(2) have "d * N + y < c * N" by simp
    with False ne show ?thesis by simp
  qed
qed

lemma numeral_less_iff:
  "length s = length t \<Longrightarrow> list_all isDigit s \<Longrightarrow> list_all isDigit t \<Longrightarrow>
     (s < t) = (decimal_value s < decimal_value t)"
proof (induction s t rule: list_induct2)
  case Nil
  show ?case by (simp add: decimal_value_def)
next
  case (Cons c s d t)
  then have ih: "(s < t) = (decimal_value s < decimal_value t)"
    and cd: "isDigit c" "isDigit d"
    and b: "decimal_value s < 10 ^ length t" "decimal_value t < 10 ^ length t"
    using decimal_value_bound [of s] decimal_value_bound [of t] by simp_all
  have "(c # s < d # t) = (c < d \<or> c = d \<and> s < t)" by simp
  also have "\<dots> = (digit_val c < digit_val d
                    \<or> digit_val c = digit_val d \<and> decimal_value s < decimal_value t)"
    by (simp only: digit_less [OF cd] digit_eq [OF cd] ih)
  also have "\<dots> = (digit_val c * 10 ^ length t + decimal_value s
                     < digit_val d * 10 ^ length t + decimal_value t)"
    by (simp only: place_value_less [OF b])
  finally show ?case
    using Cons(1) by (simp only: decimal_value_Cons)
qed

lemma numeral_eq_iff:
  assumes "length s = length t" and "list_all isDigit s" and "list_all isDigit t"
  shows "(s = t) = (decimal_value s = decimal_value t)"
proof
  assume "s = t"
  then show "decimal_value s = decimal_value t" by simp
next
  assume e: "decimal_value s = decimal_value t"
  from numeral_less_iff [OF assms] e have "\<not> s < t" by simp
  moreover from numeral_less_iff [OF assms(1) [symmetric] assms(3) assms(2)] e
  have "\<not> t < s" by simp
  ultimately show "s = t" by simp
qed

lemma append_less_iff:
  "length p = length q \<Longrightarrow> (p @ r < q @ s) = (p < q \<or> p = q \<and> r < s)"
  by (induction p q rule: list_induct2) auto

text \<open>A number below \<open>10 ^ k\<close>, padded to \<open>k\<close> characters.\<close>

lemma padded_numeral:
  assumes "0 < k" and "n < 10 ^ k"
  shows "length (padLeft (js_String n) k (CHR ''0'')) = k"
    and "list_all isDigit (padLeft (js_String n) k (CHR ''0''))"
    and "decimal_value (padLeft (js_String n) k (CHR ''0'')) = n"
proof -
  from length_js_String_le [OF assms] show "length (padLeft (js_String n) k (CHR ''0'')) = k"
    by (rule length_padLeft)
  have "isDigit (CHR ''0'')" by (simp add: isDigit_def)
  then have "list_all isDigit (replicate (k - length (js_String n)) (CHR ''0''))"
    by (induction "k - length (js_String n)") (simp_all add: list_all_iff)
  then show "list_all isDigit (padLeft (js_String n) k (CHR ''0''))"
    by (simp only: padLeft_replicate list_all_append digits_js_String simp_thms)
  show "decimal_value (padLeft (js_String n) k (CHR ''0'')) = n"
    by (simp add: padLeft_replicate decimal_value_zeros decimal_value_js_String)
qed

lemma padded_less_iff:
  assumes "0 < k" and "m < 10 ^ k" and "n < 10 ^ k"
  shows "(padLeft (js_String m) k (CHR ''0'') < padLeft (js_String n) k (CHR ''0'')) = (m < n)"
    and "(padLeft (js_String m) k (CHR ''0'') = padLeft (js_String n) k (CHR ''0'')) = (m = n)"
proof -
  note pm = padded_numeral [OF assms(1,2)]
  note pn = padded_numeral [OF assms(1,3)]
  have l: "length (padLeft (js_String m) k (CHR ''0''))
           = length (padLeft (js_String n) k (CHR ''0''))"
    using pm(1) pn(1) by simp
  from numeral_less_iff [OF l pm(2) pn(2)] pm(3) pn(3)
  show "(padLeft (js_String m) k (CHR ''0'') < padLeft (js_String n) k (CHR ''0'')) = (m < n)"
    by simp
  from numeral_eq_iff [OF l pm(2) pn(2)] pm(3) pn(3)
  show "(padLeft (js_String m) k (CHR ''0'') = padLeft (js_String n) k (CHR ''0'')) = (m = n)"
    by simp
qed

lemma sequenceKey_less_iff:
  assumes "v1 < 10 ^ 12" and "v2 < 10 ^ 12" and "i1 < 10 ^ 8" and "i2 < 10 ^ 8"
  shows "(sequenceKey v1 i1 d1 < sequenceKey v2 i2 d2)
         = (v1 < v2 \<or> v1 = v2 \<and> (i1 < i2 \<or> i1 = i2 \<and> d1 = Out \<and> d2 = In))"
proof -
  let ?p = "\<lambda>v. padLeft (js_String v) 12 (CHR ''0'')"
  let ?s = "\<lambda>i. padLeft (js_String i) 8 (CHR ''0'')"
  let ?t = "\<lambda>d. if d = Out then ''00'' else ''01''"
  have lp: "length (?p v1) = length (?p v2)"
    using padded_numeral(1) [of 12 v1] padded_numeral(1) [of 12 v2] assms by simp
  have ls: "length (?s i1) = length (?s i2)"
    using padded_numeral(1) [of 8 i1] padded_numeral(1) [of 8 i2] assms by simp
  have t: "(?t d1 < ?t d2) = (d1 = Out \<and> d2 = In)"
    by (cases d1; cases d2) simp_all
  have "(sequenceKey v1 i1 d1 < sequenceKey v2 i2 d2)
        = (?p v1 @ (CHR ''.'' # (?s i1 @ (CHR ''.'' # ?t d1)))
           < ?p v2 @ (CHR ''.'' # (?s i2 @ (CHR ''.'' # ?t d2))))"
    by (simp add: sequenceKey_def Let_def)
  also have "\<dots> = (?p v1 < ?p v2 \<or> ?p v1 = ?p v2
                   \<and> (?s i1 < ?s i2 \<or> ?s i1 = ?s i2 \<and> ?t d1 < ?t d2))"
    by (simp only: append_less_iff [OF lp] append_less_iff [OF ls] Cons_less_Cons
        less_irrefl simp_thms)
  also have "\<dots> = (v1 < v2 \<or> v1 = v2 \<and> (i1 < i2 \<or> i1 = i2 \<and> d1 = Out \<and> d2 = In))"
    using padded_less_iff [of 12 v1 v2] padded_less_iff [of 8 i1 i2] assms
    by (simp only: t zero_less_numeral simp_thms)
  finally show ?thesis .
qed

lemma sequenceKey_shape:
  assumes "v < 10 ^ 12" and "i < 10 ^ 8"
  shows "length (sequenceKey v i d) = 24"
    and "take 12 (sequenceKey v i d) = padLeft (js_String v) 12 (CHR ''0'')"
    and "sequenceKey v i d ! 12 = CHR ''.''"
    and "take 8 (drop 13 (sequenceKey v i d)) = padLeft (js_String i) 8 (CHR ''0'')"
    and "sequenceKey v i d ! 21 = CHR ''.''"
    and "drop 22 (sequenceKey v i d) = (if d = Out then ''00'' else ''01'')"
proof -
  have lp: "length (padLeft (js_String v) 12 (CHR ''0'')) = 12"
    using padded_numeral(1) [of 12 v] assms by simp
  have ls: "length (padLeft (js_String i) 8 (CHR ''0'')) = 8"
    using padded_numeral(1) [of 8 i] assms by simp
  show "length (sequenceKey v i d) = 24"
    by (simp add: sequenceKey_def Let_def lp ls)
  show "take 12 (sequenceKey v i d) = padLeft (js_String v) 12 (CHR ''0'')"
    by (simp add: sequenceKey_def Let_def lp)
  show "sequenceKey v i d ! 12 = CHR ''.''"
    by (simp add: sequenceKey_def Let_def nth_append lp)
  show "take 8 (drop 13 (sequenceKey v i d)) = padLeft (js_String i) 8 (CHR ''0'')"
    by (simp add: sequenceKey_def Let_def lp ls)
  show "sequenceKey v i d ! 21 = CHR ''.''"
    by (simp add: sequenceKey_def Let_def nth_append lp ls nth_Cons')
  show "drop 22 (sequenceKey v i d) = (if d = Out then ''00'' else ''01'')"
    by (simp add: sequenceKey_def Let_def lp ls)
qed

section \<open>The ordering key of balance activities\<close>

lemma txToBalanceActivity_Some:
  assumes "txToBalanceActivity m addr t h = (h', Inr (Some a))"
  shows "\<exists>oc r. tx_outcome t = Some oc \<and> result oc = Some r
           \<and> (startsWith r ''tes'' \<or> startsWith r ''tec'')
           \<and> act_type a = (if startsWith (act_amount a) ''-'' then Out else In)
           \<and> activitySequence a
               = sequenceKey (ledgerVersion oc) (indexInLedger oc) (act_type a)"
proof (cases "tx_outcome t")
  case None
  with assms show ?thesis by (simp add: txToBalanceActivity_def resolve_def)
next
  case (Some oc)
  show ?thesis
  proof (cases "result oc")
    case None
    with assms Some show ?thesis by (simp add: txToBalanceActivity_def resolve_def)
  next
    case r: (Some r)
    show ?thesis
    proof (cases "startsWith r ''tes'' \<or> startsWith r ''tec''")
      case False
      with assms Some r show ?thesis by (simp add: txToBalanceActivity_def resolve_def)
    next
      case True
      with assms Some r show ?thesis
        by (auto simp: txToBalanceActivity_def await_def resolve_def Let_def
            split: prod.splits sum.splits option.splits)
    qed
  qed
qed

lemma test_activity:
  "txToBalanceActivity test_monitor hot_address (test_tx_at v i ident) []
     = ([Call (GetLedger v)],
        Inr (Some \<lparr>act_type = Out, act_networkType = ''mainnet'', act_networkSymbol = ''XRP'',
                   act_assetSymbol = ''XRP'', act_address = hot_address, act_extraId = None,
                   act_amount = ''-1.000012'', act_externalId = ident,
                   activitySequence = sequenceKey v i Out, act_confirmationId = [],
                   act_confirmationNumber = v, act_timestamp = []\<rparr>))"
  "txToBalanceActivity test_monitor deposit_address (test_tx_at v i ident) []
     = ([Call (GetLedger v)],
        Inr (Some \<lparr>act_type = In, act_networkType = ''mainnet'', act_networkSymbol = ''XRP'',
                   act_assetSymbol = ''XRP'', act_address = deposit_address,
                   act_extraId = Some (js_String 7),
                   act_amount = ''1'', act_externalId = ident,
                   activitySequence = sequenceKey v i In, act_confirmationId = [],
                   act_confirmationNumber = v, act_timestamp = []\<rparr>))"
  using test_addresses_differ
  by (simp_all add: txToBalanceActivity_def test_tx_at_def test_monitor_def
      paged_api_def steady_api_def startsWith_def await_def resolve_def Let_def isPaymentTx_def
      m_retryDced_def retryIfDisconnected_def MAX_RETRIES_def numeral_3_eq_3 attemptFn_def)

lemma test_keys:
  "sequenceKey 1000000000000 0 Out = ''1000000000000.00000000.00''"
  "sequenceKey 999999999999 0 Out = ''999999999999.00000000.00''"
  "sequenceKey 1000000 3 Out = ''000001000000.00000003.00''"
  "sequenceKey 1000000 3 In = ''000001000000.00000003.01''"
  by (simp_all add: sequenceKey_def padLeft.simps js_String.simps digit_char_def)

text \<open>
  C3 as the spec states it, for every transaction, fails: \<open>padLeft\<close> does not shorten, so a
  ledger version of 13 digits gives a key that is one character longer and sorts before the
  key of a lower, 12-digit ledger version.
\<close>

theorem activitySequence_long_version_sorts_first:
  "sequenceOf (txToBalanceActivity test_monitor hot_address
                 (test_tx_at 1000000000000 0 ''A'') [])
     = Some ''1000000000000.00000000.00''
   \<and> sequenceOf (txToBalanceActivity test_monitor hot_address
                   (test_tx_at 999999999999 0 ''B'') [])
       = Some ''999999999999.00000000.00''
   \<and> ''1000000000000.00000000.00'' < ''999999999999.00000000.00''"
  by (simp add: sequenceOf_def test_activity test_keys)

text \<open>
  C3, amended. Every activity that \<open>txToBalanceActivity\<close> returns comes from a transaction
  whose result starts with tes or tec; its direction is out exactly when the balance change
  starts with a minus sign, and its activitySequence is built from the ledger version, the
  index in the ledger and the direction. When the ledger version is below \<open>10^12\<close> and the
  index below \<open>10^8\<close>, the key has 24 characters: the ledger version as 12 digits, a dot, the
  index as 8 digits, a dot, and 00 for an outgoing, 01 for an incoming leg. For two such
  activities the lexicographic order of the keys is the order of (ledger version, index,
  direction), outgoing before incoming.
\<close>

theorem txToBalanceActivity_sequence:
  "(txToBalanceActivity m addr t h = (h', Inr (Some a)) \<longrightarrow>
      (\<exists>oc r. tx_outcome t = Some oc \<and> result oc = Some r
         \<and> (startsWith r ''tes'' \<or> startsWith r ''tec'')
         \<and> act_type a = (if startsWith (act_amount a) ''-'' then Out else In)
         \<and> activitySequence a
             = padLeft (js_String (ledgerVersion oc)) 12 (CHR ''0'') @ ''.''
               @ padLeft (js_String (indexInLedger oc)) 8 (CHR ''0'') @ ''.''
               @ (if act_type a = Out then ''00'' else ''01'')
         \<and> (ledgerVersion oc < 10 ^ 12 \<and> indexInLedger oc < 10 ^ 8 \<longrightarrow>
              length (activitySequence a) = 24
              \<and> list_all isDigit (take 12 (activitySequence a))
              \<and> decimal_value (take 12 (activitySequence a)) = ledgerVersion oc
              \<and> activitySequence a ! 12 = CHR ''.''
              \<and> list_all isDigit (take 8 (drop 13 (activitySequence a)))
              \<and> decimal_value (take 8 (drop 13 (activitySequence a))) = indexInLedger oc
              \<and> activitySequence a ! 21 = CHR ''.''
              \<and> drop 22 (activitySequence a) = (if act_type a = Out then ''00'' else ''01''))))
   \<and> (txToBalanceActivity m1 addr1 t1 h1 = (h1', Inr (Some a1))
       \<and> txToBalanceActivity m2 addr2 t2 h2 = (h2', Inr (Some a2))
       \<and> tx_outcome t1 = Some oc1 \<and> tx_outcome t2 = Some oc2
       \<and> ledgerVersion oc1 < 10 ^ 12 \<and> ledgerVersion oc2 < 10 ^ 12
       \<and> indexInLedger oc1 < 10 ^ 8 \<and> indexInLedger oc2 < 10 ^ 8 \<longrightarrow>
       (activitySequence a1 < activitySequence a2)
         = (ledgerVersion oc1 < ledgerVersion oc2
            \<or> ledgerVersion oc1 = ledgerVersion oc2
              \<and> (indexInLedger oc1 < indexInLedger oc2
                 \<or> indexInLedger oc1 = indexInLedger oc2
                   \<and> act_type a1 = Out \<and> act_type a2 = In)))"
proof (intro conjI impI)
  assume "txToBalanceActivity m addr t h = (h', Inr (Some a))"
  from txToBalanceActivity_Some [OF this] obtain oc r where
    o: "tx_outcome t = Some oc" "result oc = Some r"
       "startsWith r ''tes'' \<or> startsWith r ''tec''"
       "act_type a = (if startsWith (act_amount a) ''-'' then Out else In)"
       "activitySequence a = sequenceKey (ledgerVersion oc) (indexInLedger oc) (act_type a)"
    by blast
  have k: "activitySequence a
             = padLeft (js_String (ledgerVersion oc)) 12 (CHR ''0'') @ ''.''
               @ padLeft (js_String (indexInLedger oc)) 8 (CHR ''0'') @ ''.''
               @ (if act_type a = Out then ''00'' else ''01'')"
    unfolding o(5) by (simp add: sequenceKey_def Let_def)
  have b: "ledgerVersion oc < 10 ^ 12 \<and> indexInLedger oc < 10 ^ 8 \<longrightarrow>
              length (activitySequence a) = 24
              \<and> list_all isDigit (take 12 (activitySequence a))
              \<and> decimal_value (take 12 (activitySequence a)) = ledgerVersion oc
              \<and> activitySequence a ! 12 = CHR ''.''
              \<and> list_all isDigit (take 8 (drop 13 (activitySequence a)))
              \<and> decimal_value (take 8 (drop 13 (activitySequence a))) = indexInLedger oc
              \<and> activitySequence a ! 21 = CHR ''.''
              \<and> drop 22 (activitySequence a) = (if act_type a = Out then ''00'' else ''01'')"
  proof
    assume bd: "ledgerVersion oc < 10 ^ 12 \<and> indexInLedger oc < 10 ^ 8"
    then have v: "ledgerVersion oc < 10 ^ 12" and i: "indexInLedger oc < 10 ^ 8" by simp_all
    note sh = sequenceKey_shape [OF v i, of "act_type a"]
    note pv = padded_numeral [of 12 "ledgerVersion oc", OF _ v]
    note pi = padded_numeral [of 8 "indexInLedger oc", OF _ i]
    from sh pv pi
    show "length (activitySequence a) = 24
              \<and> list_all isDigit (take 12 (activitySequence a))
              \<and> decimal_value (take 12 (activitySequence a)) = ledgerVersion oc
              \<and> activitySequence a ! 12 = CHR ''.''
              \<and> list_all isDigit (take 8 (drop 13 (activitySequence a)))
              \<and> decimal_value (take 8 (drop 13 (activitySequence a))) = indexInLedger oc
              \<and> activitySequence a ! 21 = CHR ''.''
              \<and> drop 22 (activitySequence a) = (if act_type a = Out then ''00'' else ''01'')"
      unfolding o(5) by simp
  qed
  from o k b
  show "\<exists>oc r. tx_outcome t = Some oc \<and> result oc = Some r
         \<and> (startsWith r ''tes'' \<or> startsWith r ''tec'')
         \<and> act_type a = (if startsWith (act_amount a) ''-'' then Out else In)
         \<and> activitySequence a
             = padLeft (js_String (ledgerVersion oc)) 12 (CHR ''0'') @ ''.''
               @ padLeft (js_String (indexInLedger oc)) 8 (CHR ''0'') @ ''.''
               @ (if act_type a = Out then ''00'' else ''01'')
         \<and> (ledgerVersion oc < 10 ^ 12 \<and> indexInLedger oc < 10 ^ 8 \<longrightarrow>
              length (activitySequence a) = 24
              \<and> list_all isDigit (take 12 (activitySequence a))
              \<and> decimal_value (take 12 (activitySequence a)) = ledgerVersion oc
              \<and> activitySequence a ! 12 = CHR ''.''
              \<and> list_all isDigit (take 8 (drop 13 (activitySequence a)))
              \<and> decimal_value (take 8 (drop 13 (activitySequence a))) = indexInLedger oc
              \<and> activitySequence a ! 21 = CHR ''.''
              \<and> drop 22 (activitySequence a) = (if act_type a = Out then ''00'' else ''01''))"
    by blast
next
  assume a: "txToBalanceActivity m1 addr1 t1 h1 = (h1', Inr (Some a1))
       \<and> txToBalanceActivity m2 addr2 t2 h2 = (h2', Inr (Some a2))
       \<and> tx_outcome t1 = Some oc1 \<and> tx_outcome t2 = Some oc2
       \<and> ledgerVersion oc1 < 10 ^ 12 \<and> ledgerVersion oc2 < 10 ^ 12
       \<and> indexInLedger oc1 < 10 ^ 8 \<and> indexInLedger oc2 < 10 ^ 8"
  then have 1: "txToBalanceActivity m1 addr1 t1 h1 = (h1', Inr (Some a1))"
    and 2: "txToBalanceActivity m2 addr2 t2 h2 = (h2', Inr (Some a2))" by simp_all
  from txToBalanceActivity_Some [OF 1] a
  have k1: "activitySequence a1
              = sequenceKey (ledgerVersion oc1) (indexInLedger oc1) (act_type a1)" by auto
  from txToBalanceActivity_Some [OF 2] a
  have k2: "activitySequence a2
              = sequenceKey (ledgerVersion oc2) (indexInLedger oc2) (act_type a2)" by auto
  from a show "(activitySequence a1 < activitySequence a2)
         = (ledgerVersion oc1 < ledgerVersion oc2
            \<or> ledgerVersion oc1 = ledgerVersion oc2
              \<and> (indexInLedger oc1 < indexInLedger oc2
                 \<or> indexInLedger oc1 = indexInLedger oc2
                   \<and> act_type a1 = Out \<and> act_type a2 = In))"
    unfolding k1 k2 by (intro sequenceKey_less_iff) simp_all
qed

theorem txToBalanceActivity_sequence_witness:
  "sequenceOf (txToBalanceActivity test_monitor hot_address (test_tx_at 1000000 3 ''T'') [])
     = Some ''000001000000.00000003.00''
   \<and> sequenceOf (txToBalanceActivity test_monitor deposit_address (test_tx_at 1000000 3 ''T'') [])
       = Some ''000001000000.00000003.01''
   \<and> ''000001000000.00000003.00'' < ''000001000000.00000003.01''"
proof -
  let ?t = "test_tx_at 1000000 3 ''T''"
  obtain h1 a1 where
    e1: "txToBalanceActivity test_monitor hot_address ?t [] = (h1, Inr (Some a1))"
    and t1: "act_type a1 = Out"
    by (simp add: test_activity)
  obtain h2 a2 where
    e2: "txToBalanceActivity test_monitor deposit_address ?t [] = (h2, Inr (Some a2))"
    and t2: "act_type a2 = In"
    by (simp add: test_activity)
  obtain oc where oc: "tx_outcome ?t = Some oc" "ledgerVersion oc = 1000000"
    "indexInLedger oc = 3"
    by (simp add: test_tx_at_def)
  have bd: "ledgerVersion oc < 10 ^ 12 \<and> indexInLedger oc < 10 ^ 8"
    using oc by simp
  note inst = txToBalanceActivity_sequence
    [where m = test_monitor and addr = hot_address and t = ?t and h = "[]" and h' = h1
       and a = a1 and ?m1.0 = test_monitor and ?addr1.0 = hot_address and ?t1.0 = ?t
       and ?h1.0 = "[]" and ?h1' = h1 and ?a1.0 = a1 and ?m2.0 = test_monitor
       and ?addr2.0 = deposit_address and ?t2.0 = ?t and ?h2.0 = "[]" and ?h2' = h2
       and ?a2.0 = a2 and ?oc1.0 = oc and ?oc2.0 = oc]
  from inst e1 e2 oc bd t1 t2
  have lt: "activitySequence a1 < activitySequence a2" by simp
  from inst e1 oc t1
  have k1: "activitySequence a1
              = padLeft (js_String 1000000) 12 (CHR ''0'') @ ''.''
                @ padLeft (js_String 3) 8 (CHR ''0'') @ ''.'' @ ''00''"
    by auto
  from e2 have k2: "activitySequence a2 = sequenceKey 1000000 3 In"
    by (auto simp: test_activity)
  have k1': "activitySequence a1 = ''000001000000.00000003.00''"
    unfolding k1 by (simp add: padLeft.simps js_String.simps digit_char_def)
  from e1 e2 k1' k2 lt show ?thesis
    by (simp add: sequenceOf_def test_keys)
qed

section \<open>Pagination\<close>














section \<open>Watch-only keys\<close>










end
